theory Spec2Isabelle
  imports
    Complex_Main
    "HOL-Library.Word"
    "HOL-Library.Sublist"
    "HOL-Library.Char_ord"
    "HOL-Library.List_Lexorder"
    "HOL-Library.Multiset"
begin

section \<open>OTLP data model of the Go conformance runner\<close>

text \<open>
  The runner (\<^verbatim>\<open>runners/go/eval.go\<close>, \<^verbatim>\<open>runners/go/main.go\<close>) works on the
  protobuf-generated OTLP structs. A Go \<^verbatim>\<open>string\<close> is a byte sequence and is modelled
  as \<^typ>\<open>string\<close>; a \<^verbatim>\<open>[]byte\<close> result that may be \<^verbatim>\<open>nil\<close> is a
  \<^typ>\<open>string option\<close>, \<^term>\<open>None\<close> being \<^verbatim>\<open>nil\<close> and \<^term>\<open>Some []\<close> the
  non-nil slice of length zero that the conversion \<^verbatim>\<open>[]byte("")\<close> yields.
  A pointer that may be \<^verbatim>\<open>nil\<close> is an \<^typ>\<open>'a option\<close>.
\<close>

datatype AnyValue =
    AnyValue_Unset
  | AnyValue_StringValue string
  | AnyValue_BoolValue bool
  | AnyValue_IntValue "64 word"
  | AnyValue_DoubleValue "64 word"
  | AnyValue_ArrayValue "AnyValue list option"
  | AnyValue_KvlistValue "KeyValue list option"
  | AnyValue_BytesValue string
and KeyValue = KeyValue (Key: string) (Value: "AnyValue option")

record Resource =
  res_Attributes :: "KeyValue list"

record InstrumentationScope =
  scope_Name :: string
  scope_Version :: string
  scope_Attributes :: "KeyValue list"

record LogRecord =
  Body :: "AnyValue option"
  SeverityText :: string
  TraceId :: string
  SpanId :: string
  EventName :: string
  Attributes :: "KeyValue list"

record LogContext =
  Record :: LogRecord
  Resource :: "Resource option"
  Scope :: "InstrumentationScope option"
  ResourceSchemaURL :: string
  ScopeSchemaURL :: string

text \<open>
  Modelled from the spec: the field references of the policy library
  (\<^verbatim>\<open>policy.LogFieldRef\<close>, \<^verbatim>\<open>policy.MetricFieldRef\<close>, \<^verbatim>\<open>policy.TraceFieldRef\<close>),
  whose declarations are not part of the runner. The spec calls a field reference a
  discriminated reference to a fixed field of the signal, a record-level attribute
  path, a resource attribute path or a scope attribute path.
\<close>

datatype 'f FieldRef =
    FixedField 'f
  | RecordAttr "string list"
  | ResourceAttr "string list"
  | ScopeAttr "string list"

fun IsField :: "'f FieldRef \<Rightarrow> bool" where
  "IsField (FixedField f) = True"
| "IsField _ = False"

fun IsRecordAttr :: "'f FieldRef \<Rightarrow> bool" where
  "IsRecordAttr (RecordAttr p) = True"
| "IsRecordAttr _ = False"

fun IsResourceAttr :: "'f FieldRef \<Rightarrow> bool" where
  "IsResourceAttr (ResourceAttr p) = True"
| "IsResourceAttr _ = False"

fun IsScopeAttr :: "'f FieldRef \<Rightarrow> bool" where
  "IsScopeAttr (ScopeAttr p) = True"
| "IsScopeAttr _ = False"

fun AttrPath :: "'f FieldRef \<Rightarrow> string list" where
  "AttrPath (FixedField f) = []"
| "AttrPath (RecordAttr p) = p"
| "AttrPath (ResourceAttr p) = p"
| "AttrPath (ScopeAttr p) = p"

datatype LogField =
    LogFieldUnspecified
  | LogFieldBody
  | LogFieldSeverityText
  | LogFieldTraceID
  | LogFieldSpanID
  | LogFieldEventName
  | LogFieldResourceSchemaURL
  | LogFieldScopeSchemaURL

type_synonym LogFieldRef = "LogField FieldRef"

subsection \<open>Attribute helpers\<close>

fun anyValueBytes :: "AnyValue option \<Rightarrow> string option" where
  "anyValueBytes None = None"
| "anyValueBytes (Some (AnyValue_StringValue s)) = (if s = [] then None else Some s)"
| "anyValueBytes (Some _) = None"

fun findAttributePath :: "KeyValue list \<Rightarrow> string list \<Rightarrow> string option" where
  "findAttributePath attrs [] = None"
| "findAttributePath [] (p # ps) = None"
| "findAttributePath (kv # rest) (p # ps) =
     (if Key kv \<noteq> p then findAttributePath rest (p # ps)
      else if ps = [] then anyValueBytes (Value kv)
      else (case Value kv of
              Some (AnyValue_KvlistValue (Some vs)) \<Rightarrow> findAttributePath vs ps
            | _ \<Rightarrow> None))"

fun resourceAttrs :: "Resource option \<Rightarrow> KeyValue list" where
  "resourceAttrs None = []"
| "resourceAttrs (Some r) = res_Attributes r"

fun scopeAttrs :: "InstrumentationScope option \<Rightarrow> KeyValue list" where
  "scopeAttrs None = []"
| "scopeAttrs (Some s) = scope_Attributes s"

definition attrPath :: "'f FieldRef \<Rightarrow> string" where
  "attrPath ref = (if length (AttrPath ref) > 0 then hd (AttrPath ref) else [])"

subsection \<open>Log matcher\<close>

definition OTelLogMatcher :: "LogContext \<Rightarrow> LogFieldRef \<Rightarrow> string option" where
  "OTelLogMatcher ctx ref =
     (case ref of
        FixedField f \<Rightarrow>
          (case f of
             LogFieldBody \<Rightarrow> anyValueBytes (Body (Record ctx))
           | LogFieldSeverityText \<Rightarrow>
               (if SeverityText (Record ctx) = [] then None
                else Some (SeverityText (Record ctx)))
           | LogFieldTraceID \<Rightarrow>
               (if length (TraceId (Record ctx)) = 0 then None
                else Some (TraceId (Record ctx)))
           | LogFieldSpanID \<Rightarrow>
               (if length (SpanId (Record ctx)) = 0 then None
                else Some (SpanId (Record ctx)))
           | LogFieldEventName \<Rightarrow>
               (if EventName (Record ctx) = [] then None
                else Some (EventName (Record ctx)))
           | LogFieldResourceSchemaURL \<Rightarrow>
               (if ResourceSchemaURL ctx = [] then None
                else Some (ResourceSchemaURL ctx))
           | LogFieldScopeSchemaURL \<Rightarrow>
               (if ScopeSchemaURL ctx = [] then None
                else Some (ScopeSchemaURL ctx))
           | _ \<Rightarrow> None)
      | RecordAttr p \<Rightarrow> findAttributePath (Attributes (Record ctx)) (AttrPath ref)
      | ResourceAttr p \<Rightarrow> findAttributePath (resourceAttrs (Resource ctx)) (AttrPath ref)
      | ScopeAttr p \<Rightarrow> findAttributePath (scopeAttrs (Scope ctx)) (AttrPath ref))"

subsection \<open>Metric matcher\<close>

datatype AggregationTemporality =
    AGGREGATION_TEMPORALITY_UNSPECIFIED
  | AGGREGATION_TEMPORALITY_DELTA
  | AGGREGATION_TEMPORALITY_CUMULATIVE

record DataPoint =
  dp_Attributes :: "KeyValue list"

datatype MetricData =
    Metric_Gauge "DataPoint list"
  | Metric_Sum "DataPoint list" AggregationTemporality
  | Metric_Histogram "DataPoint list" AggregationTemporality
  | Metric_ExponentialHistogram "DataPoint list" AggregationTemporality
  | Metric_Summary "DataPoint list"

record Metric =
  metric_Name :: string
  metric_Description :: string
  metric_Unit :: string
  metric_Data :: "MetricData option"

record MetricContext =
  mc_Metric :: Metric
  mc_DatapointAttributes :: "KeyValue list"
  mc_Resource :: "Resource option"
  mc_Scope :: "InstrumentationScope option"
  mc_ResourceSchemaURL :: string
  mc_ScopeSchemaURL :: string

datatype MetricField =
    MetricFieldUnspecified
  | MetricFieldName
  | MetricFieldDescription
  | MetricFieldUnit
  | MetricFieldType
  | MetricFieldAggregationTemporality
  | MetricFieldScopeName
  | MetricFieldScopeVersion
  | MetricFieldResourceSchemaURL
  | MetricFieldScopeSchemaURL

type_synonym MetricFieldRef = "MetricField FieldRef"

fun metricType :: "Metric \<Rightarrow> string" where
  "metricType m =
     (case metric_Data m of
        Some (Metric_Gauge dps) \<Rightarrow> ''gauge''
      | Some (Metric_Sum dps t) \<Rightarrow> ''sum''
      | Some (Metric_Histogram dps t) \<Rightarrow> ''histogram''
      | Some (Metric_ExponentialHistogram dps t) \<Rightarrow> ''exponential_histogram''
      | Some (Metric_Summary dps) \<Rightarrow> ''summary''
      | None \<Rightarrow> [])"

fun temporalityString :: "AggregationTemporality \<Rightarrow> string" where
  "temporalityString AGGREGATION_TEMPORALITY_DELTA = ''delta''"
| "temporalityString AGGREGATION_TEMPORALITY_CUMULATIVE = ''cumulative''"
| "temporalityString _ = []"

fun aggregationTemporality :: "Metric \<Rightarrow> string" where
  "aggregationTemporality m =
     (case metric_Data m of
        Some (Metric_Sum dps t) \<Rightarrow> temporalityString t
      | Some (Metric_Histogram dps t) \<Rightarrow> temporalityString t
      | Some (Metric_ExponentialHistogram dps t) \<Rightarrow> temporalityString t
      | _ \<Rightarrow> [])"

definition OTelMetricMatcher :: "MetricContext \<Rightarrow> MetricFieldRef \<Rightarrow> string option" where
  "OTelMetricMatcher ctx ref =
     (case ref of
        FixedField f \<Rightarrow>
          (case f of
             MetricFieldName \<Rightarrow>
               (if metric_Name (mc_Metric ctx) = [] then None
                else Some (metric_Name (mc_Metric ctx)))
           | MetricFieldDescription \<Rightarrow>
               (if metric_Description (mc_Metric ctx) = [] then None
                else Some (metric_Description (mc_Metric ctx)))
           | MetricFieldUnit \<Rightarrow>
               (if metric_Unit (mc_Metric ctx) = [] then None
                else Some (metric_Unit (mc_Metric ctx)))
           | MetricFieldType \<Rightarrow> Some (metricType (mc_Metric ctx))
           | MetricFieldAggregationTemporality \<Rightarrow>
               Some (aggregationTemporality (mc_Metric ctx))
           | MetricFieldScopeName \<Rightarrow>
               (case mc_Scope ctx of
                  None \<Rightarrow> None
                | Some s \<Rightarrow> if scope_Name s = [] then None else Some (scope_Name s))
           | MetricFieldScopeVersion \<Rightarrow>
               (case mc_Scope ctx of
                  None \<Rightarrow> None
                | Some s \<Rightarrow> if scope_Version s = [] then None else Some (scope_Version s))
           | MetricFieldResourceSchemaURL \<Rightarrow>
               (if mc_ResourceSchemaURL ctx = [] then None
                else Some (mc_ResourceSchemaURL ctx))
           | MetricFieldScopeSchemaURL \<Rightarrow>
               (if mc_ScopeSchemaURL ctx = [] then None
                else Some (mc_ScopeSchemaURL ctx))
           | _ \<Rightarrow> None)
      | RecordAttr p \<Rightarrow> findAttributePath (mc_DatapointAttributes ctx) (AttrPath ref)
      | ResourceAttr p \<Rightarrow> findAttributePath (resourceAttrs (mc_Resource ctx)) (AttrPath ref)
      | ScopeAttr p \<Rightarrow> findAttributePath (scopeAttrs (mc_Scope ctx)) (AttrPath ref))"

subsection \<open>Trace matcher\<close>

datatype Span_SpanKind =
    Span_SPAN_KIND_UNSPECIFIED
  | Span_SPAN_KIND_INTERNAL
  | Span_SPAN_KIND_SERVER
  | Span_SPAN_KIND_CLIENT
  | Span_SPAN_KIND_PRODUCER
  | Span_SPAN_KIND_CONSUMER

text \<open>
  A status code is a 32-bit enum in Go; a number outside the three declared values is
  \<open>Status_STATUS_CODE_unrecognized\<close>, which the \<^verbatim>\<open>default\<close> branch of
  \<^verbatim>\<open>statusCodeString\<close> handles.
\<close>

datatype Status_StatusCode =
    Status_STATUS_CODE_UNSET
  | Status_STATUS_CODE_OK
  | Status_STATUS_CODE_ERROR
  | Status_STATUS_CODE_unrecognized

record Status =
  Code :: Status_StatusCode

record Span_Event =
  event_Name :: string

record Span =
  span_Name :: string
  span_TraceId :: string
  span_SpanId :: string
  span_ParentSpanId :: string
  span_TraceState :: string
  span_Kind :: Span_SpanKind
  span_Status :: "Status option"
  span_Events :: "Span_Event list"
  span_Attributes :: "KeyValue list"

record TraceContext =
  tc_Span :: Span
  tc_Resource :: "Resource option"
  tc_Scope :: "InstrumentationScope option"
  tc_ResourceSchemaURL :: string
  tc_ScopeSchemaURL :: string

datatype TraceField =
    TraceFieldUnspecified
  | TraceFieldName
  | TraceFieldTraceID
  | TraceFieldSpanID
  | TraceFieldParentSpanID
  | TraceFieldTraceState
  | TraceFieldKind
  | TraceFieldStatus
  | TraceFieldEventName
  | TraceFieldScopeName
  | TraceFieldScopeVersion
  | TraceFieldResourceSchemaURL
  | TraceFieldScopeSchemaURL

type_synonym TraceFieldRef = "TraceField FieldRef"

fun spanKindString :: "Span_SpanKind \<Rightarrow> string" where
  "spanKindString Span_SPAN_KIND_INTERNAL = ''internal''"
| "spanKindString Span_SPAN_KIND_SERVER = ''server''"
| "spanKindString Span_SPAN_KIND_CLIENT = ''client''"
| "spanKindString Span_SPAN_KIND_PRODUCER = ''producer''"
| "spanKindString Span_SPAN_KIND_CONSUMER = ''consumer''"
| "spanKindString _ = []"

fun statusCodeString :: "Status_StatusCode \<Rightarrow> string" where
  "statusCodeString Status_STATUS_CODE_OK = ''ok''"
| "statusCodeString Status_STATUS_CODE_ERROR = ''error''"
| "statusCodeString Status_STATUS_CODE_UNSET = ''unset''"
| "statusCodeString _ = []"

fun firstEventName :: "Span_Event list \<Rightarrow> string option" where
  "firstEventName [] = None"
| "firstEventName (evt # evts) =
     (if event_Name evt \<noteq> [] then Some (event_Name evt) else firstEventName evts)"

definition OTelTraceMatcher :: "TraceContext \<Rightarrow> TraceFieldRef \<Rightarrow> string option" where
  "OTelTraceMatcher ctx ref =
     (case ref of
        FixedField f \<Rightarrow>
          (case f of
             TraceFieldName \<Rightarrow>
               (if span_Name (tc_Span ctx) = [] then None
                else Some (span_Name (tc_Span ctx)))
           | TraceFieldTraceID \<Rightarrow>
               (if length (span_TraceId (tc_Span ctx)) = 0 then None
                else Some (span_TraceId (tc_Span ctx)))
           | TraceFieldSpanID \<Rightarrow>
               (if length (span_SpanId (tc_Span ctx)) = 0 then None
                else Some (span_SpanId (tc_Span ctx)))
           | TraceFieldParentSpanID \<Rightarrow>
               (if length (span_ParentSpanId (tc_Span ctx)) = 0 then None
                else Some (span_ParentSpanId (tc_Span ctx)))
           | TraceFieldTraceState \<Rightarrow>
               (if span_TraceState (tc_Span ctx) = [] then None
                else Some (span_TraceState (tc_Span ctx)))
           | TraceFieldKind \<Rightarrow> Some (spanKindString (span_Kind (tc_Span ctx)))
           | TraceFieldStatus \<Rightarrow>
               (case span_Status (tc_Span ctx) of
                  None \<Rightarrow> None
                | Some st \<Rightarrow> Some (statusCodeString (Code st)))
           | TraceFieldEventName \<Rightarrow> firstEventName (span_Events (tc_Span ctx))
           | TraceFieldScopeName \<Rightarrow>
               (case tc_Scope ctx of
                  None \<Rightarrow> None
                | Some s \<Rightarrow> if scope_Name s = [] then None else Some (scope_Name s))
           | TraceFieldScopeVersion \<Rightarrow>
               (case tc_Scope ctx of
                  None \<Rightarrow> None
                | Some s \<Rightarrow> if scope_Version s = [] then None else Some (scope_Version s))
           | TraceFieldResourceSchemaURL \<Rightarrow>
               (if tc_ResourceSchemaURL ctx = [] then None
                else Some (tc_ResourceSchemaURL ctx))
           | TraceFieldScopeSchemaURL \<Rightarrow>
               (if tc_ScopeSchemaURL ctx = [] then None
                else Some (tc_ScopeSchemaURL ctx))
           | _ \<Rightarrow> None)
      | RecordAttr p \<Rightarrow> findAttributePath (span_Attributes (tc_Span ctx)) (AttrPath ref)
      | ResourceAttr p \<Rightarrow> findAttributePath (resourceAttrs (tc_Resource ctx)) (AttrPath ref)
      | ScopeAttr p \<Rightarrow> findAttributePath (scopeAttrs (tc_Scope ctx)) (AttrPath ref))"


subsection \<open>Reference lookup used to state the accessor's contract\<close>

text \<open>
  \<open>lookupPath\<close> is the specification's reading of an attribute path: the value stored
  under the first attribute whose key is the head of the path, descending into nested
  key-value lists for the rest of the path. It is compared with \<open>findAttributePath\<close>
  below.
\<close>

fun lookupPath :: "KeyValue list \<Rightarrow> string list \<Rightarrow> AnyValue option" where
  "lookupPath attrs [] = None"
| "lookupPath attrs (p # ps) =
     (case find (\<lambda>kv. Key kv = p) attrs of
        None \<Rightarrow> None
      | Some kv \<Rightarrow>
          if ps = [] then Value kv
          else (case Value kv of
                  Some (AnyValue_KvlistValue (Some vs)) \<Rightarrow> lookupPath vs ps
                | _ \<Rightarrow> None))"

definition exampleSpan :: Span where
  "exampleSpan = \<lparr>span_Name = ''GET /'', span_TraceId = ''0123456789abcdef'',
     span_SpanId = ''01234567'', span_ParentSpanId = [], span_TraceState = [],
     span_Kind = Span_SPAN_KIND_UNSPECIFIED, span_Status = None, span_Events = [],
     span_Attributes = [KeyValue ''http.method'' (Some (AnyValue_StringValue ''GET''))]\<rparr>"

definition exampleTraceContext :: TraceContext where
  "exampleTraceContext = \<lparr>tc_Span = exampleSpan, tc_Resource = None, tc_Scope = None,
     tc_ResourceSchemaURL = [], tc_ScopeSchemaURL = []\<rparr>"

definition exampleLogRecord :: LogRecord where
  "exampleLogRecord = \<lparr>Body = Some (AnyValue_StringValue ''hello''), SeverityText = ''INFO'',
     TraceId = [], SpanId = [], EventName = [],
     Attributes = [KeyValue ''a'' (Some (AnyValue_StringValue ''x'')),
                   KeyValue ''b'' (Some (AnyValue_StringValue ''y'')),
                   KeyValue ''e'' (Some (AnyValue_StringValue []))]\<rparr>"

definition exampleLogContext :: LogContext where
  "exampleLogContext = \<lparr>Record = exampleLogRecord, Resource = None, Scope = None,
     ResourceSchemaURL = [], ScopeSchemaURL = []\<rparr>"

definition exampleMetricContext :: MetricContext where
  "exampleMetricContext =
     \<lparr>mc_Metric = \<lparr>metric_Name = ''requests'', metric_Description = [], metric_Unit = ''1'',
                    metric_Data = Some (Metric_Gauge [])\<rparr>,
      mc_DatapointAttributes = [], mc_Resource = None, mc_Scope = None,
      mc_ResourceSchemaURL = [], mc_ScopeSchemaURL = []\<rparr>"

subsection \<open>Log transformer\<close>

text \<open>
  The transformer mutates the record, the resource and the scope through pointers. The
  model passes the context in and returns it updated. A helper that takes a
  \<^verbatim>\<open>*[]*KeyValue\<close> takes the slice the pointer refers to (\<open>None\<close> for a \<^verbatim>\<open>nil\<close>
  pointer) and returns its new contents. Dereferencing a \<^verbatim>\<open>nil\<close> pointer panics; the
  panic is the error value \<open>NilPointerDereference\<close>. Slicing a slice beyond its
  capacity panics as well (\<open>SliceBoundsOutOfRange\<close>).
\<close>

datatype error = NilPointerDereference | SliceBoundsOutOfRange

text \<open>
  Modelled from the spec: \<^verbatim>\<open>policy.TransformOp\<close> and its kinds, declared in the policy
  library: a kind among remove, redact, rename and add, a field reference, the
  replacement value (redact, add), the target key (rename) and the upsert flag.
\<close>

datatype TransformKind = TransformRemove | TransformRedact | TransformRename | TransformAdd

record TransformOp =
  op_Kind :: TransformKind
  op_Ref :: LogFieldRef
  op_Value :: string
  op_To :: string
  op_Upsert :: bool

fun otelLogAttrs :: "LogContext \<Rightarrow> LogFieldRef \<Rightarrow> KeyValue list option" where
  "otelLogAttrs ctx (RecordAttr p) = Some (Attributes (Record ctx))"
| "otelLogAttrs ctx (ResourceAttr p) = map_option res_Attributes (Resource ctx)"
| "otelLogAttrs ctx (ScopeAttr p) = map_option scope_Attributes (Scope ctx)"
| "otelLogAttrs ctx (FixedField f) = None"

text \<open>Writing through the pointer that \<open>otelLogAttrs\<close> returned.\<close>

fun storeLogAttrs :: "LogContext \<Rightarrow> LogFieldRef \<Rightarrow> KeyValue list option \<Rightarrow> LogContext" where
  "storeLogAttrs ctx ref None = ctx"
| "storeLogAttrs ctx (RecordAttr p) (Some attrs) =
     ctx\<lparr>Record := (Record ctx)\<lparr>Attributes := attrs\<rparr>\<rparr>"
| "storeLogAttrs ctx (ResourceAttr p) (Some attrs) =
     ctx\<lparr>Resource := map_option (\<lambda>r. r\<lparr>res_Attributes := attrs\<rparr>) (Resource ctx)\<rparr>"
| "storeLogAttrs ctx (ScopeAttr p) (Some attrs) =
     ctx\<lparr>Scope := map_option (\<lambda>s. s\<lparr>scope_Attributes := attrs\<rparr>) (Scope ctx)\<rparr>"
| "storeLogAttrs ctx (FixedField f) (Some attrs) = ctx"

fun findAttributeIndexFrom :: "int \<Rightarrow> KeyValue list \<Rightarrow> string \<Rightarrow> int" where
  "findAttributeIndexFrom i [] key = -1"
| "findAttributeIndexFrom i (kv # attrs) key =
     (if Key kv = key then i else findAttributeIndexFrom (i + 1) attrs key)"

definition findAttributeIndex :: "KeyValue list \<Rightarrow> string \<Rightarrow> int" where
  "findAttributeIndex attrs key = findAttributeIndexFrom 0 attrs key"

definition stringValue :: "string \<Rightarrow> AnyValue option" where
  "stringValue s = Some (AnyValue_StringValue s)"

definition removeAttribute :: "KeyValue list option \<Rightarrow> string \<Rightarrow> KeyValue list option \<times> bool" where
  "removeAttribute attrs key =
     (case attrs of
        None \<Rightarrow> (attrs, False)
      | Some as \<Rightarrow>
          if key = [] then (attrs, False)
          else let idx = findAttributeIndex as key in
            if idx < 0 then (attrs, False)
            else (Some (take (nat idx) as @ drop (nat idx + 1) as), True))"

definition setAttribute ::
  "KeyValue list option \<Rightarrow> string \<Rightarrow> string \<Rightarrow> bool \<Rightarrow> KeyValue list option \<times> bool" where
  "setAttribute attrs key val upsert =
     (case attrs of
        None \<Rightarrow> (attrs, False)
      | Some as \<Rightarrow>
          if key = [] then (attrs, False)
          else let idx = findAttributeIndex as key in
            if idx \<ge> 0 then
              (if \<not> upsert then (attrs, True)
               else (Some (as[nat idx := KeyValue (Key (as ! nat idx)) (stringValue val)]), True))
            else (Some (as @ [KeyValue key (stringValue val)]), True))"

definition otelLogRemove :: "LogContext \<Rightarrow> LogFieldRef \<Rightarrow> bool \<times> LogContext" where
  "otelLogRemove ctx ref =
     (case ref of
        FixedField f \<Rightarrow>
          (case f of
             LogFieldBody \<Rightarrow>
               (Body (Record ctx) \<noteq> None, ctx\<lparr>Record := (Record ctx)\<lparr>Body := None\<rparr>\<rparr>)
           | LogFieldSeverityText \<Rightarrow>
               (SeverityText (Record ctx) \<noteq> [], ctx\<lparr>Record := (Record ctx)\<lparr>SeverityText := []\<rparr>\<rparr>)
           | LogFieldTraceID \<Rightarrow>
               (length (TraceId (Record ctx)) > 0, ctx\<lparr>Record := (Record ctx)\<lparr>TraceId := []\<rparr>\<rparr>)
           | LogFieldSpanID \<Rightarrow>
               (length (SpanId (Record ctx)) > 0, ctx\<lparr>Record := (Record ctx)\<lparr>SpanId := []\<rparr>\<rparr>)
           | LogFieldEventName \<Rightarrow>
               (EventName (Record ctx) \<noteq> [], ctx\<lparr>Record := (Record ctx)\<lparr>EventName := []\<rparr>\<rparr>)
           | _ \<Rightarrow> (False, ctx))
      | _ \<Rightarrow>
          (let (attrs', hit) = removeAttribute (otelLogAttrs ctx ref) (attrPath ref)
           in (hit, storeLogAttrs ctx ref attrs')))"

definition otelLogRedact :: "LogContext \<Rightarrow> LogFieldRef \<Rightarrow> string \<Rightarrow> bool \<times> LogContext" where
  "otelLogRedact ctx ref replacement =
     (case ref of
        FixedField f \<Rightarrow>
          (case f of
             LogFieldBody \<Rightarrow>
               (Body (Record ctx) \<noteq> None,
                ctx\<lparr>Record := (Record ctx)\<lparr>Body := stringValue replacement\<rparr>\<rparr>)
           | LogFieldSeverityText \<Rightarrow>
               (SeverityText (Record ctx) \<noteq> [],
                ctx\<lparr>Record := (Record ctx)\<lparr>SeverityText := replacement\<rparr>\<rparr>)
           | LogFieldTraceID \<Rightarrow>
               (length (TraceId (Record ctx)) > 0,
                ctx\<lparr>Record := (Record ctx)\<lparr>TraceId := replacement\<rparr>\<rparr>)
           | LogFieldSpanID \<Rightarrow>
               (length (SpanId (Record ctx)) > 0,
                ctx\<lparr>Record := (Record ctx)\<lparr>SpanId := replacement\<rparr>\<rparr>)
           | LogFieldEventName \<Rightarrow>
               (EventName (Record ctx) \<noteq> [],
                ctx\<lparr>Record := (Record ctx)\<lparr>EventName := replacement\<rparr>\<rparr>)
           | _ \<Rightarrow> (False, ctx))
      | _ \<Rightarrow>
          (case otelLogAttrs ctx ref of
             None \<Rightarrow> (False, ctx)
           | Some as \<Rightarrow>
               if attrPath ref = [] then (False, ctx)
               else let idx = findAttributeIndex as (attrPath ref) in
                 if idx < 0 then (False, ctx)
                 else (True, storeLogAttrs ctx ref
                        (Some (as[nat idx := KeyValue (Key (as ! nat idx)) (stringValue replacement)])))))"

definition otelLogRename ::
  "LogContext \<Rightarrow> LogFieldRef \<Rightarrow> string \<Rightarrow> bool \<Rightarrow> error + (bool \<times> LogContext)" where
  "otelLogRename ctx ref to upsert =
     (if IsField ref then Inr (False, ctx)
      else if attrPath ref = [] then Inr (False, ctx)
      else (case otelLogAttrs ctx ref of
              None \<Rightarrow> Inl NilPointerDereference
            | Some as \<Rightarrow>
                let idx = findAttributeIndex as (attrPath ref) in
                if idx < 0 then Inr (False, ctx)
                else let val = anyValueBytes (Value (as ! nat idx)) in
                  if \<not> upsert \<and> findAttributeIndex as to \<ge> 0 then Inr (True, ctx)
                  else let removed = take (nat idx) as @ drop (nat idx + 1) as;
                           (attrs', _) = setAttribute (Some removed) to
                                           (case val of Some b \<Rightarrow> b | None \<Rightarrow> []) True
                       in Inr (True, storeLogAttrs ctx ref attrs')))"

definition otelLogAdd :: "LogContext \<Rightarrow> LogFieldRef \<Rightarrow> string \<Rightarrow> bool \<Rightarrow> bool \<times> LogContext" where
  "otelLogAdd ctx ref val upsert =
     (case ref of
        FixedField f \<Rightarrow>
          (case f of
             LogFieldBody \<Rightarrow>
               (if \<not> upsert \<and> Body (Record ctx) \<noteq> None then (True, ctx)
                else (True, ctx\<lparr>Record := (Record ctx)\<lparr>Body := stringValue val\<rparr>\<rparr>))
           | LogFieldSeverityText \<Rightarrow>
               (if \<not> upsert \<and> SeverityText (Record ctx) \<noteq> [] then (True, ctx)
                else (True, ctx\<lparr>Record := (Record ctx)\<lparr>SeverityText := val\<rparr>\<rparr>))
           | LogFieldTraceID \<Rightarrow>
               (if \<not> upsert \<and> length (TraceId (Record ctx)) > 0 then (True, ctx)
                else (True, ctx\<lparr>Record := (Record ctx)\<lparr>TraceId := val\<rparr>\<rparr>))
           | LogFieldSpanID \<Rightarrow>
               (if \<not> upsert \<and> length (SpanId (Record ctx)) > 0 then (True, ctx)
                else (True, ctx\<lparr>Record := (Record ctx)\<lparr>SpanId := val\<rparr>\<rparr>))
           | LogFieldEventName \<Rightarrow>
               (if \<not> upsert \<and> EventName (Record ctx) \<noteq> [] then (True, ctx)
                else (True, ctx\<lparr>Record := (Record ctx)\<lparr>EventName := val\<rparr>\<rparr>))
           | _ \<Rightarrow> (False, ctx))
      | _ \<Rightarrow>
          (let (attrs', hit) = setAttribute (otelLogAttrs ctx ref) (attrPath ref) val upsert
           in (hit, storeLogAttrs ctx ref attrs')))"

definition OTelLogTransformer :: "LogContext \<Rightarrow> TransformOp \<Rightarrow> error + (bool \<times> LogContext)" where
  "OTelLogTransformer ctx op =
     (case op_Kind op of
        TransformRemove \<Rightarrow> Inr (otelLogRemove ctx (op_Ref op))
      | TransformRedact \<Rightarrow> Inr (otelLogRedact ctx (op_Ref op) (op_Value op))
      | TransformRename \<Rightarrow> otelLogRename ctx (op_Ref op) (op_To op) (op_Upsert op)
      | TransformAdd \<Rightarrow> Inr (otelLogAdd ctx (op_Ref op) (op_Value op) (op_Upsert op)))"

subsection \<open>Rename in the Zig runner\<close>

text \<open>
  \<^verbatim>\<open>mutRename\<close> of \<^verbatim>\<open>runners/zig/src/eval.zig\<close>, on the same context. A resource or
  scope that is not there makes it return false. The key is the first path element,
  \<^verbatim>\<open>null\<close> for an empty path. \<^verbatim>\<open>append\<close> may fail to allocate, and then the function
  returns false after the source has been removed; \<open>appendOk\<close> says whether the
  allocation succeeds.
\<close>

definition attrKey :: "'f FieldRef \<Rightarrow> string option" where
  "attrKey ref = (case AttrPath ref of [] \<Rightarrow> None | k # ps \<Rightarrow> Some k)"

fun findAttrIndex :: "KeyValue list \<Rightarrow> string \<Rightarrow> nat option" where
  "findAttrIndex [] key = None"
| "findAttrIndex (kv # attrs) key =
     (if Key kv = key then Some 0 else map_option Suc (findAttrIndex attrs key))"

definition orderedRemove :: "'a list \<Rightarrow> nat \<Rightarrow> 'a list" where
  "orderedRemove xs i = take i xs @ drop (Suc i) xs"

definition mutRename ::
  "bool \<Rightarrow> LogContext \<Rightarrow> LogFieldRef \<Rightarrow> string \<Rightarrow> bool \<Rightarrow> bool \<times> LogContext" where
  "mutRename appendOk lc from to upsert =
     (case otelLogAttrs lc from of
        None \<Rightarrow> (False, lc)
      | Some attrs \<Rightarrow>
          (case attrKey from of
             None \<Rightarrow> (False, lc)
           | Some k \<Rightarrow>
               (case findAttrIndex attrs k of
                  None \<Rightarrow> (False, lc)
                | Some src_idx \<Rightarrow>
                    let src_val = Value (attrs ! src_idx) in
                    if \<not> upsert \<and> findAttrIndex attrs to \<noteq> None then (True, lc)
                    else
                      let attrs1 = orderedRemove attrs src_idx;
                          attrs2 = (if upsert
                                    then (case findAttrIndex attrs1 to of
                                            Some ti \<Rightarrow> orderedRemove attrs1 ti
                                          | None \<Rightarrow> attrs1)
                                    else attrs1)
                      in if appendOk
                         then (True, storeLogAttrs lc from (Some (attrs2 @ [KeyValue to src_val])))
                         else (False, storeLogAttrs lc from (Some attrs2)))))"

subsection \<open>Presence of a mutation target\<close>

text \<open>
  What "the targeted field existed before the operation" means in the statements below:
  one of the five fixed fields the transformer writes (body, severity text, trace id,
  span id, event name) is set, or the first path element of an attribute reference is a
  non-empty key of an attribute in the referenced container, and that container is
  there. \<open>logTargetWritable\<close> is the weaker condition that the target can be written
  at all.
\<close>

fun logTargetPresent :: "LogContext \<Rightarrow> LogFieldRef \<Rightarrow> bool" where
  "logTargetPresent ctx (FixedField LogFieldBody) = (Body (Record ctx) \<noteq> None)"
| "logTargetPresent ctx (FixedField LogFieldSeverityText) = (SeverityText (Record ctx) \<noteq> [])"
| "logTargetPresent ctx (FixedField LogFieldTraceID) = (TraceId (Record ctx) \<noteq> [])"
| "logTargetPresent ctx (FixedField LogFieldSpanID) = (SpanId (Record ctx) \<noteq> [])"
| "logTargetPresent ctx (FixedField LogFieldEventName) = (EventName (Record ctx) \<noteq> [])"
| "logTargetPresent ctx (FixedField _) = False"
| "logTargetPresent ctx ref =
     (case otelLogAttrs ctx ref of
        None \<Rightarrow> False
      | Some as \<Rightarrow> attrPath ref \<noteq> [] \<and> attrPath ref \<in> Key ` set as)"

fun logTargetWritable :: "LogContext \<Rightarrow> LogFieldRef \<Rightarrow> bool" where
  "logTargetWritable ctx (FixedField f) =
     (f \<in> {LogFieldBody, LogFieldSeverityText, LogFieldTraceID, LogFieldSpanID, LogFieldEventName})"
| "logTargetWritable ctx ref = (otelLogAttrs ctx ref \<noteq> None \<and> attrPath ref \<noteq> [])"

subsection \<open>ID replacement in the pdata-based runner\<close>

text \<open>
  A second variant of the Go runner works on the collector's pdata types, where a trace
  id is a \<^verbatim>\<open>[16]byte\<close> and a span id a \<^verbatim>\<open>[8]byte\<close>; its transformer converts the
  replacement string with \<^verbatim>\<open>traceIDFromString\<close> and \<^verbatim>\<open>spanIDFromString\<close>.
  \<open>hexDecodeString\<close> is \<^verbatim>\<open>hex.DecodeString\<close> of the Go standard library as these
  two functions use it: the decoded bytes, or \<open>None\<close> for any error (a byte that is not
  a hexadecimal digit, or an odd length). An id is the list of its bytes; the zero value
  of the array is \<open>emptyID\<close>.
\<close>

fun fromHexChar :: "char \<Rightarrow> nat option" where
  "fromHexChar c =
     (let n = (of_char c :: nat) in
      if 48 \<le> n \<and> n \<le> 57 then Some (n - 48)
      else if 97 \<le> n \<and> n \<le> 102 then Some (n - 97 + 10)
      else if 65 \<le> n \<and> n \<le> 70 then Some (n - 65 + 10)
      else None)"

fun hexDecodeString :: "string \<Rightarrow> string option" where
  "hexDecodeString [] = Some []"
| "hexDecodeString [p] = None"
| "hexDecodeString (p # q # rest) =
     (case (fromHexChar p, fromHexChar q) of
        (Some a, Some b) \<Rightarrow> map_option ((#) (char_of (16 * a + b))) (hexDecodeString rest)
      | _ \<Rightarrow> None)"

definition emptyID :: "nat \<Rightarrow> string" where
  "emptyID n = replicate n (CHR 0x00)"

definition traceIDFromString :: "string \<Rightarrow> string" where
  "traceIDFromString s =
     (case hexDecodeString s of
        Some b \<Rightarrow> if length b = 16 then b else emptyID 16
      | None \<Rightarrow> emptyID 16)"

definition spanIDFromString :: "string \<Rightarrow> string" where
  "spanIDFromString s =
     (case hexDecodeString s of
        Some b \<Rightarrow> if length b = 8 then b else emptyID 8
      | None \<Rightarrow> emptyID 8)"

text \<open>
  The trace-id and span-id arms of the pdata variant's \<^verbatim>\<open>otelLogRedact\<close> and
  \<^verbatim>\<open>otelLogAdd\<close>, on the id they read and write: the result is the hit flag and the
  id stored in the record.
\<close>

definition otelLogRedact_pdata_TraceID :: "string \<Rightarrow> string \<Rightarrow> bool \<times> string" where
  "otelLogRedact_pdata_TraceID traceID replacement =
     (traceID \<noteq> emptyID 16, traceIDFromString replacement)"

definition otelLogRedact_pdata_SpanID :: "string \<Rightarrow> string \<Rightarrow> bool \<times> string" where
  "otelLogRedact_pdata_SpanID spanID replacement =
     (spanID \<noteq> emptyID 8, spanIDFromString replacement)"

definition otelLogAdd_pdata_TraceID :: "string \<Rightarrow> string \<Rightarrow> bool \<Rightarrow> bool \<times> string" where
  "otelLogAdd_pdata_TraceID traceID val upsert =
     (if \<not> upsert \<and> traceID \<noteq> emptyID 16 then (True, traceID)
      else (True, traceIDFromString val))"

definition otelLogAdd_pdata_SpanID :: "string \<Rightarrow> string \<Rightarrow> bool \<Rightarrow> bool \<times> string" where
  "otelLogAdd_pdata_SpanID spanID val upsert =
     (if \<not> upsert \<and> spanID \<noteq> emptyID 8 then (True, spanID)
      else (True, spanIDFromString val))"

subsection \<open>String functions of the Go standard library\<close>

text \<open>
  \<^verbatim>\<open>strings.TrimSpace\<close> removes leading and trailing white space as Unicode defines
  it: the six ASCII white-space bytes, and the UTF-8 encodings of the other code points
  with the White_Space property (U+0085, U+00A0, U+1680, U+2000 to U+200A, U+2028,
  U+2029, U+202F, U+205F, U+3000). \<^verbatim>\<open>strings.Split\<close>, \<^verbatim>\<open>strings.Index\<close> and
  \<^verbatim>\<open>strings.Join\<close> are modelled for the one-byte separators the runner passes.
\<close>

definition asciiSpace :: "char \<Rightarrow> bool" where
  "asciiSpace c = (c \<in> {CHR 0x09, CHR 0x0A, CHR 0x0B, CHR 0x0C, CHR 0x0D, CHR 0x20})"

definition unicodeSpaces :: "string list" where
  "unicodeSpaces =
     [[CHR 0xC2, CHR 0x85], [CHR 0xC2, CHR 0xA0], [CHR 0xE1, CHR 0x9A, CHR 0x80],
      [CHR 0xE2, CHR 0x80, CHR 0x80], [CHR 0xE2, CHR 0x80, CHR 0x81],
      [CHR 0xE2, CHR 0x80, CHR 0x82], [CHR 0xE2, CHR 0x80, CHR 0x83],
      [CHR 0xE2, CHR 0x80, CHR 0x84], [CHR 0xE2, CHR 0x80, CHR 0x85],
      [CHR 0xE2, CHR 0x80, CHR 0x86], [CHR 0xE2, CHR 0x80, CHR 0x87],
      [CHR 0xE2, CHR 0x80, CHR 0x88], [CHR 0xE2, CHR 0x80, CHR 0x89],
      [CHR 0xE2, CHR 0x80, CHR 0x8A], [CHR 0xE2, CHR 0x80, CHR 0xA8],
      [CHR 0xE2, CHR 0x80, CHR 0xA9], [CHR 0xE2, CHR 0x80, CHR 0xAF],
      [CHR 0xE2, CHR 0x81, CHR 0x9F], [CHR 0xE3, CHR 0x80, CHR 0x80]]"

definition leadingSpaceLen :: "string \<Rightarrow> nat" where
  "leadingSpaceLen s =
     (case s of
        [] \<Rightarrow> 0
      | c # cs \<Rightarrow>
          if asciiSpace c then 1
          else (case find (\<lambda>w. prefix w s) unicodeSpaces of
                  Some w \<Rightarrow> length w
                | None \<Rightarrow> 0))"

definition trailingSpaceLen :: "string \<Rightarrow> nat" where
  "trailingSpaceLen s =
     (case rev s of
        [] \<Rightarrow> 0
      | c # cs \<Rightarrow>
          if asciiSpace c then 1
          else (case find (\<lambda>w. prefix (rev w) (rev s)) unicodeSpaces of
                  Some w \<Rightarrow> length w
                | None \<Rightarrow> 0))"

function TrimLeft :: "string \<Rightarrow> string" where
  "TrimLeft s = (if leadingSpaceLen s = 0 then s else TrimLeft (drop (leadingSpaceLen s) s))"
  by pat_completeness auto
termination
proof (relation "measure length")
  fix s :: string
  assume "leadingSpaceLen s \<noteq> 0"
  moreover have "s \<noteq> []" using calculation by (auto simp: leadingSpaceLen_def)
  ultimately show "(drop (leadingSpaceLen s) s, s) \<in> measure length" by simp
qed simp

function TrimRight :: "string \<Rightarrow> string" where
  "TrimRight s =
     (if trailingSpaceLen s = 0 then s else TrimRight (take (length s - trailingSpaceLen s) s))"
  by pat_completeness auto
termination
proof (relation "measure length")
  fix s :: string
  assume "trailingSpaceLen s \<noteq> 0"
  moreover have "s \<noteq> []" using calculation by (auto simp: trailingSpaceLen_def)
  ultimately show "(take (length s - trailingSpaceLen s) s, s) \<in> measure length" by simp
qed simp

declare TrimLeft.simps [simp del] TrimRight.simps [simp del]

definition TrimSpace :: "string \<Rightarrow> string" where
  "TrimSpace s = TrimRight (TrimLeft s)"

fun Split :: "string \<Rightarrow> char \<Rightarrow> string list" where
  "Split [] sep = [[]]"
| "Split (c # cs) sep =
     (if c = sep then [] # Split cs sep
      else (case Split cs sep of
              w # ws \<Rightarrow> (c # w) # ws
            | [] \<Rightarrow> [[c]]))"

fun Join :: "string list \<Rightarrow> string \<Rightarrow> string" where
  "Join [] sep = []"
| "Join [x] sep = x"
| "Join (x # y # ys) sep = x @ sep @ Join (y # ys) sep"

fun IndexFrom :: "int \<Rightarrow> string \<Rightarrow> char \<Rightarrow> int" where
  "IndexFrom i [] c = -1"
| "IndexFrom i (x # xs) c = (if x = c then i else IndexFrom (i + 1) xs c)"

definition Index :: "string \<Rightarrow> char \<Rightarrow> int" where
  "Index s c = IndexFrom 0 s c"

subsection \<open>Tracestate merge of the pdata-based runner\<close>

text \<open>
  \<^verbatim>\<open>mergeOTTracestate\<close> loops over the vendors of the tracestate and, inside an
  \<^verbatim>\<open>ot=\<close> vendor, over its parts, appending to \<^verbatim>\<open>otParts\<close> and
  \<^verbatim>\<open>otherVendors\<close>. \<open>mergeOT_vendors\<close> and \<open>mergeOT_parts\<close> are the two loops with
  these accumulators; \<open>subKeyOf\<close> is the text before the first colon, as computed for
  \<^verbatim>\<open>subKey\<close> and \<^verbatim>\<open>partKey\<close>. \<open>OTelTraceTransformer_threshold\<close> is the value
  the trace transformer writes back for the sampling-threshold field.
\<close>

definition subKeyOf :: "string \<Rightarrow> string" where
  "subKeyOf s = (let idx = Index s (CHR '':'') in if idx \<ge> 0 then take (nat idx) s else s)"

fun mergeOT_parts :: "string \<Rightarrow> string list \<Rightarrow> string list \<Rightarrow> string list" where
  "mergeOT_parts subKey otParts [] = otParts"
| "mergeOT_parts subKey otParts (part # parts) =
     (let part' = TrimSpace part in
      if part' = [] then mergeOT_parts subKey otParts parts
      else if subKeyOf part' \<noteq> subKey then mergeOT_parts subKey (otParts @ [part']) parts
      else mergeOT_parts subKey otParts parts)"

fun mergeOT_vendors ::
  "string \<Rightarrow> string list \<times> string list \<Rightarrow> string list \<Rightarrow> string list \<times> string list" where
  "mergeOT_vendors subKey (otParts, otherVendors) [] = (otParts, otherVendors)"
| "mergeOT_vendors subKey (otParts, otherVendors) (vendor # vendors) =
     (let vendor' = TrimSpace vendor in
      if vendor' = [] then mergeOT_vendors subKey (otParts, otherVendors) vendors
      else if prefix ''ot='' vendor' then
        mergeOT_vendors subKey
          (mergeOT_parts subKey otParts (Split (drop 3 vendor') (CHR '';'')), otherVendors) vendors
      else mergeOT_vendors subKey (otParts, otherVendors @ [vendor']) vendors)"

definition mergeOTTracestate :: "string \<Rightarrow> string \<Rightarrow> string" where
  "mergeOTTracestate tracestate subkv =
     (let subKey = subKeyOf subkv;
          (otParts, otherVendors) =
            (if tracestate \<noteq> [] then
               mergeOT_vendors subKey ([], []) (Split tracestate (CHR '',''))
             else ([], []));
          otParts' = otParts @ [subkv];
          result = ''ot='' @ Join otParts' '';''
      in if length otherVendors > 0 then result @ '','' @ Join otherVendors '','' else result)"

definition OTelTraceTransformer_threshold :: "string \<Rightarrow> string \<Rightarrow> string" where
  "OTelTraceTransformer_threshold traceState val = mergeOTTracestate traceState (''th:'' @ val)"

subsection \<open>The tracestate as the specification reads it\<close>

text \<open>
  The entries of a tracestate are its comma-separated members with surrounding white
  space removed, empty members dropped; the \<open>ot\<close> sub-keys are the semicolon-separated
  parts of the entries that start with \<^verbatim>\<open>ot=\<close>, trimmed likewise; the other vendor
  entries are the entries that do not start with \<^verbatim>\<open>ot=\<close>.
\<close>

definition tracestateEntries :: "string \<Rightarrow> string list" where
  "tracestateEntries ts = filter (\<lambda>e. e \<noteq> []) (map TrimSpace (Split ts (CHR '','')))"

definition otSubKeys :: "string \<Rightarrow> string list" where
  "otSubKeys ts =
     concat (map (\<lambda>e. filter (\<lambda>p. p \<noteq> []) (map TrimSpace (Split (drop 3 e) (CHR '';''))))
                 (filter (prefix ''ot='') (tracestateEntries ts)))"

definition otherVendorEntries :: "string \<Rightarrow> string list" where
  "otherVendorEntries ts = filter (\<lambda>e. \<not> prefix ''ot='' e) (tracestateEntries ts)"

subsection \<open>Tracestate merge of the Zig runner\<close>

text \<open>
  \<^verbatim>\<open>mergeOTTracestate\<close> of \<^verbatim>\<open>runners/zig/src/eval.zig\<close> takes the threshold value
  itself and builds the result in byte buffers: \<^verbatim>\<open>ot_parts\<close> and \<^verbatim>\<open>other_vendors\<close>
  receive a separator before every piece but the first. It strips spaces only
  (\<^verbatim>\<open>std.mem.trim\<close> with \<^verbatim>\<open>" "\<close>), and it skips the parts that start with \<^verbatim>\<open>th:\<close>. A
  failing \<^verbatim>\<open>appendSlice\<close> is ignored by the source and left out here.
\<close>

definition trim_zig :: "string \<Rightarrow> string" where
  "trim_zig s = rev (dropWhile (\<lambda>c. c = CHR '' '') (rev (dropWhile (\<lambda>c. c = CHR '' '') s)))"

fun mergeOT_parts_zig :: "string \<Rightarrow> string list \<Rightarrow> string" where
  "mergeOT_parts_zig ot_parts [] = ot_parts"
| "mergeOT_parts_zig ot_parts (part_raw # parts) =
     (let part = trim_zig part_raw in
      if length part = 0 then mergeOT_parts_zig ot_parts parts
      else if prefix ''th:'' part then mergeOT_parts_zig ot_parts parts
      else mergeOT_parts_zig
             ((if length ot_parts > 0 then ot_parts @ '';'' else ot_parts) @ part) parts)"

fun mergeOT_vendors_zig :: "string \<times> string \<Rightarrow> string list \<Rightarrow> string \<times> string" where
  "mergeOT_vendors_zig (ot_parts, other_vendors) [] = (ot_parts, other_vendors)"
| "mergeOT_vendors_zig (ot_parts, other_vendors) (vendor_raw # vendors) =
     (let vendor = trim_zig vendor_raw in
      if length vendor = 0 then mergeOT_vendors_zig (ot_parts, other_vendors) vendors
      else if prefix ''ot='' vendor then
        mergeOT_vendors_zig
          (mergeOT_parts_zig ot_parts (Split (drop 3 vendor) (CHR '';'')), other_vendors) vendors
      else mergeOT_vendors_zig
             (ot_parts,
              (if length other_vendors > 0 then other_vendors @ '','' else other_vendors) @ vendor)
             vendors)"

definition mergeOTTracestate_zig :: "string \<Rightarrow> string \<Rightarrow> string" where
  "mergeOTTracestate_zig tracestate th_value =
     (let (ot_parts, other_vendors) =
            (if length tracestate > 0 then
               mergeOT_vendors_zig ([], []) (Split tracestate (CHR '',''))
             else ([], []));
          result = ''ot='' @ (if length ot_parts > 0 then ot_parts @ '';'' else [])
                   @ ''th:'' @ th_value
      in if length other_vendors > 0 then result @ '','' @ other_vendors else result)"

text \<open>
  The entries, \<open>ot\<close> sub-keys and other vendor entries of a tracestate as the Zig runner
  delimits them: members with surrounding spaces removed.
\<close>

definition tracestateEntries_zig :: "string \<Rightarrow> string list" where
  "tracestateEntries_zig ts = filter (\<lambda>e. e \<noteq> []) (map trim_zig (Split ts (CHR '','')))"

definition otSubKeys_zig :: "string \<Rightarrow> string list" where
  "otSubKeys_zig ts =
     concat (map (\<lambda>e. filter (\<lambda>p. p \<noteq> []) (map trim_zig (Split (drop 3 e) (CHR '';''))))
                 (filter (prefix ''ot='') (tracestateEntries_zig ts)))"

definition otherVendorEntries_zig :: "string \<Rightarrow> string list" where
  "otherVendorEntries_zig ts = filter (\<lambda>e. \<not> prefix ''ot='' e) (tracestateEntries_zig ts)"

subsection \<open>Stats output of the Go runner\<close>

text \<open>
  Modelled from the spec: the entries \<^verbatim>\<open>registry.CollectStats()\<close> returns, declared
  in the policy library: a policy id with its hit and miss counters.

  \<^verbatim>\<open>writeStats\<close> appends an entry for every policy with a non-zero counter to a slice
  that starts \<^verbatim>\<open>nil\<close> (\<open>None\<close>), replaces a \<^verbatim>\<open>nil\<close> slice by an empty one, sorts with
  \<^verbatim>\<open>sort.Slice\<close> by \<^verbatim>\<open>PolicyID\<close> under the byte-wise order of Go strings, and
  writes \<^verbatim>\<open>json.Marshal\<close> of the result. \<^verbatim>\<open>sort.Slice\<close> returns some sorted
  permutation; the model takes the one insertion sort gives. The JSON encoding of a Go
  string (quoting and escaping) is the parameter \<open>encodeString\<close>; the order on
  \<^typ>\<open>string\<close> is the lexicographic order on bytes.
\<close>

record PolicyStats =
  stats_PolicyID :: string
  MatchHits :: "64 word"
  MatchMisses :: "64 word"

record PolicyHit =
  PolicyID :: string
  Hits :: "64 word"
  Misses :: "64 word"

record StatsOutput =
  Policies :: "PolicyHit list option"

fun appendHit :: "PolicyHit list option \<Rightarrow> PolicyHit \<Rightarrow> PolicyHit list option" where
  "appendHit None h = Some [h]"
| "appendHit (Some hs) h = Some (hs @ [h])"

fun collectPolicyHits :: "PolicyHit list option \<Rightarrow> PolicyStats list \<Rightarrow> PolicyHit list option" where
  "collectPolicyHits out [] = out"
| "collectPolicyHits out (s # stats) =
     (if MatchHits s > 0 \<or> MatchMisses s > 0 then
        collectPolicyHits
          (appendHit out \<lparr>PolicyID = stats_PolicyID s, Hits = MatchHits s, Misses = MatchMisses s\<rparr>)
          stats
      else collectPolicyHits out stats)"

definition sortSlice_PolicyID :: "PolicyHit list \<Rightarrow> PolicyHit list" where
  "sortSlice_PolicyID hs = sort_key PolicyID hs"

definition statsOutput :: "PolicyStats list \<Rightarrow> StatsOutput" where
  "statsOutput stats =
     (let policies = collectPolicyHits None stats;
          policies' = (if policies = None then Some [] else policies)
      in \<lparr>Policies = map_option sortSlice_PolicyID policies'\<rparr>)"

function decimalDigits :: "nat \<Rightarrow> string" where
  "decimalDigits n =
     (if n < 10 then [char_of (48 + n)]
      else decimalDigits (n div 10) @ [char_of (48 + n mod 10)])"
  by pat_completeness auto
termination
  by (relation "measure id") auto

declare decimalDigits.simps [simp del]

definition marshalPolicyHit :: "(string \<Rightarrow> string) \<Rightarrow> PolicyHit \<Rightarrow> string" where
  \<open>marshalPolicyHit encodeString h =
     ''{"policy_id":'' @ encodeString (PolicyID h) @ '',"hits":'' @ decimalDigits (unat (Hits h))
     @ (if Misses h = 0 then [] else '',"misses":'' @ decimalDigits (unat (Misses h)))
     @ ''}''\<close>

definition marshalStatsOutput :: "(string \<Rightarrow> string) \<Rightarrow> StatsOutput \<Rightarrow> string" where
  \<open>marshalStatsOutput encodeString out =
     ''{"policies":''
     @ (case Policies out of
          None \<Rightarrow> ''null''
        | Some hs \<Rightarrow> ''['' @ Join (map (marshalPolicyHit encodeString) hs) '','' @ '']'')
     @ ''}''\<close>

definition writeStats :: "(string \<Rightarrow> string) \<Rightarrow> PolicyStats list \<Rightarrow> string" where
  "writeStats encodeString stats = marshalStatsOutput encodeString (statsOutput stats)"

text \<open>The entries to report: one for each policy with a non-zero counter, in input order.\<close>

definition reported :: "PolicyStats list \<Rightarrow> PolicyHit list" where
  "reported stats =
     map (\<lambda>s. \<lparr>PolicyID = stats_PolicyID s, Hits = MatchHits s, Misses = MatchMisses s\<rparr>)
         (filter (\<lambda>s. MatchHits s \<noteq> 0 \<or> MatchMisses s \<noteq> 0) stats)"

subsection \<open>Stats of the sync server and of the Zig runner\<close>

text \<open>
  \<^verbatim>\<open>getStats\<close> of \<^verbatim>\<open>server/main.go\<close> ranges over the map \<^verbatim>\<open>s.stats\<close>. The order in
  which Go iterates a map is not specified: the entries are given as a list, in the
  order the iteration takes. The counters are \<^verbatim>\<open>int64\<close>; they are only copied.
\<close>

record policyHit =
  srv_PolicyID :: string
  srv_Hits :: int

record statsOutput_srv =
  srv_Policies :: "policyHit list option"

fun appendPolicyHits :: "policyHit list option \<Rightarrow> (string \<times> int) list \<Rightarrow> policyHit list option" where
  "appendPolicyHits out [] = out"
| "appendPolicyHits out ((pid, n) # entries) =
     appendPolicyHits
       (Some ((case out of None \<Rightarrow> [] | Some hs \<Rightarrow> hs) @ [\<lparr>srv_PolicyID = pid, srv_Hits = n\<rparr>]))
       entries"

definition getStats :: "(string \<times> int) list \<Rightarrow> statsOutput_srv" where
  "getStats entries =
     (let policies = appendPolicyHits None entries;
          policies' = (if policies = None then Some [] else policies)
      in \<lparr>srv_Policies = map_option (sort_key srv_PolicyID) policies'\<rparr>)"

text \<open>
  \<^verbatim>\<open>writeStats\<close> of the Zig runner writes nothing when the registry has no snapshot.
  Otherwise it walks the policies of the snapshot, skips a policy without stats, reads
  the hit counter, keeps the policies with a positive counter, sorts them with
  \<^verbatim>\<open>std.mem.sort\<close> (a stable sort) under \<^verbatim>\<open>std.mem.order\<close> on the ids, and prints the
  JSON text itself, the id between quotes as it is. A snapshot is the list of its
  policies, each an id with the counter read from its stats (\<open>None\<close> without stats);
  failures of the allocator and of the file system are left out.
\<close>

record PolicyStat =
  policy_id :: string
  hits :: int

fun collectStats_zig :: "PolicyStat list \<Rightarrow> (string \<times> int option) list \<Rightarrow> PolicyStat list" where
  "collectStats_zig stats [] = stats"
| "collectStats_zig stats ((pid, None) # ps) = collectStats_zig stats ps"
| "collectStats_zig stats ((pid, Some h) # ps) =
     (if h > 0 then collectStats_zig (stats @ [\<lparr>policy_id = pid, hits = h\<rparr>]) ps
      else collectStats_zig stats ps)"

definition formatInt :: "int \<Rightarrow> string" where
  "formatInt i = (if i < 0 then CHR ''-'' # decimalDigits (nat (- i)) else decimalDigits (nat i))"

definition printPolicyStat :: "PolicyStat \<Rightarrow> string" where
  \<open>printPolicyStat st =
     ''{"policy_id":"'' @ policy_id st @ ''","hits":'' @ formatInt (hits st) @ ''}''\<close>

fun writeEntries_zig :: "nat \<Rightarrow> PolicyStat list \<Rightarrow> string" where
  "writeEntries_zig i [] = []"
| "writeEntries_zig i (st # sts) =
     (if i > 0 then '','' else []) @ printPolicyStat st @ writeEntries_zig (i + 1) sts"

definition writeStats_zig :: "(string \<times> int option) list option \<Rightarrow> string option" where
  \<open>writeStats_zig snapshot =
     (case snapshot of
        None \<Rightarrow> None
      | Some policies \<Rightarrow>
          Some (''{"policies":[''
                @ writeEntries_zig 0 (sort_key policy_id (collectStats_zig [] policies))
                @ '']}''))\<close>

text \<open>The entries the Zig runner reports: the policies with a positive hit counter.\<close>

definition reported_zig :: "(string \<times> int option) list \<Rightarrow> PolicyStat list" where
  "reported_zig policies =
     concat (map (\<lambda>(pid, c). case c of
                     None \<Rightarrow> []
                   | Some h \<Rightarrow> if h > 0 then [\<lparr>policy_id = pid, hits = h\<rparr>] else []) policies)"

text \<open>The entries the server reports: one for each entry of the map.\<close>

definition reported_srv :: "(string \<times> int) list \<Rightarrow> policyHit list" where
  "reported_srv entries = map (\<lambda>(pid, n). \<lparr>srv_PolicyID = pid, srv_Hits = n\<rparr>) entries"

subsection \<open>Signal processing of the Go runner\<close>

text \<open>
  \<^verbatim>\<open>processLogs\<close>, \<^verbatim>\<open>processMetrics\<close> and \<^verbatim>\<open>processTraces\<close> have the same shape:
  resource containers (\<^verbatim>\<open>ResourceLogs\<close>, \<^verbatim>\<open>ResourceMetrics\<close>, \<^verbatim>\<open>ResourceSpans\<close>)
  hold scope containers (\<^verbatim>\<open>ScopeLogs\<close>, \<^verbatim>\<open>ScopeMetrics\<close>, \<^verbatim>\<open>ScopeSpans\<close>), which
  hold the records. The two container types are polymorphic in the record type.

  Each loop filters a slice in place: \<^verbatim>\<open>kept := xs[:0]\<close> shares the backing array of
  \<^verbatim>\<open>xs\<close>, the \<^verbatim>\<open>range\<close> loop reads element \<open>i\<close> of that array and
  \<^verbatim>\<open>append(kept, x)\<close> writes position \<open>len(kept)\<close> of it. \<open>keepInPlace\<close> is this loop
  on the array \<open>a\<close> with the read index \<open>i\<close> and the length \<open>w\<close> of \<^verbatim>\<open>kept\<close>; the
  loop body \<open>step\<close> returns whether the element is kept, the element as the body left
  it, and the state it threads. \<open>keepSlice\<close> is the slice \<^verbatim>\<open>kept\<close> after the loop.
\<close>

function keepInPlace ::
  "('s \<Rightarrow> 'a \<Rightarrow> bool \<times> 'a \<times> 's) \<Rightarrow> 's \<Rightarrow> 'a list \<Rightarrow> nat \<Rightarrow> nat \<Rightarrow> 'a list \<times> nat \<times> 's" where
  "keepInPlace step s a i w =
     (if i < length a then
        (case step s (a ! i) of
           (keep, x, s') \<Rightarrow>
             if keep then keepInPlace step s' (a[w := x]) (i + 1) (w + 1)
             else keepInPlace step s' a (i + 1) w)
      else (a, w, s))"
  by pat_completeness auto
termination
  by (relation "measure (\<lambda>(step, s, a, i, w). length a - i)") auto

declare keepInPlace.simps [simp del]

definition keepSlice :: "('s \<Rightarrow> 'a \<Rightarrow> bool \<times> 'a \<times> 's) \<Rightarrow> 's \<Rightarrow> 'a list \<Rightarrow> 'a list \<times> 's" where
  "keepSlice step s xs = (case keepInPlace step s xs 0 0 of (a, w, s') \<Rightarrow> (take w a, s'))"

definition pureStep :: "('a \<Rightarrow> bool) \<Rightarrow> unit \<Rightarrow> 'a \<Rightarrow> bool \<times> 'a \<times> unit" where
  "pureStep P u x = (P x, x, ())"

record 'r ScopeContainer =
  container_Scope :: "InstrumentationScope option"
  container_Records :: "'r list"

record 'r ResourceContainer =
  container_Resource :: "Resource option"
  container_Scopes :: "'r ScopeContainer list"

type_synonym ResourceLogs = "LogRecord ResourceContainer"
type_synonym ResourceMetrics = "Metric ResourceContainer"
type_synonym ResourceSpans = "Span ResourceContainer"

text \<open>
  Modelled from the spec: the verdict of the engine entry points
  \<^verbatim>\<open>policy.EvaluateLog\<close>, \<^verbatim>\<open>policy.EvaluateMetric\<close> and \<^verbatim>\<open>policy.EvaluateTrace\<close>
  (keep, drop or no match). The entry points themselves belong to the policy library and
  are parameters of the model: given the engine state and the context they return the
  verdict, the context as the transforms left it, and the new engine state.
\<close>

datatype EvaluateResult = ResultNoMatch | ResultKeep | ResultDrop

type_synonym 'eng EvalState = "'eng \<times> Resource option \<times> InstrumentationScope option"

definition evaluateLogStep ::
  "('eng \<Rightarrow> LogContext \<Rightarrow> EvaluateResult \<times> LogContext \<times> 'eng)
   \<Rightarrow> 'eng EvalState \<Rightarrow> LogRecord \<Rightarrow> bool \<times> LogRecord \<times> 'eng EvalState" where
  "evaluateLogStep EvaluateLog st rec =
     (case st of
        (eng, res, scope) \<Rightarrow>
          (case EvaluateLog eng \<lparr>Record = rec, Resource = res, Scope = scope,
                                 ResourceSchemaURL = [], ScopeSchemaURL = []\<rparr> of
             (result, ctx, eng') \<Rightarrow>
               (result \<noteq> ResultDrop, Record ctx, (eng', Resource ctx, Scope ctx))))"

fun firstDatapointAttrs :: "DataPoint list \<Rightarrow> KeyValue list" where
  "firstDatapointAttrs [] = []"
| "firstDatapointAttrs (dp # dps) = dp_Attributes dp"

fun getDatapointAttrs :: "Metric \<Rightarrow> KeyValue list" where
  "getDatapointAttrs m =
     (case metric_Data m of
        Some (Metric_Gauge dps) \<Rightarrow> firstDatapointAttrs dps
      | Some (Metric_Sum dps t) \<Rightarrow> firstDatapointAttrs dps
      | Some (Metric_Histogram dps t) \<Rightarrow> firstDatapointAttrs dps
      | Some (Metric_ExponentialHistogram dps t) \<Rightarrow> firstDatapointAttrs dps
      | Some (Metric_Summary dps) \<Rightarrow> firstDatapointAttrs dps
      | None \<Rightarrow> [])"

definition evaluateMetricStep ::
  "('eng \<Rightarrow> MetricContext \<Rightarrow> EvaluateResult \<times> MetricContext \<times> 'eng)
   \<Rightarrow> 'eng EvalState \<Rightarrow> Metric \<Rightarrow> bool \<times> Metric \<times> 'eng EvalState" where
  "evaluateMetricStep EvaluateMetric st m =
     (case st of
        (eng, res, scope) \<Rightarrow>
          (case EvaluateMetric eng \<lparr>mc_Metric = m, mc_DatapointAttributes = getDatapointAttrs m,
                                    mc_Resource = res, mc_Scope = scope,
                                    mc_ResourceSchemaURL = [], mc_ScopeSchemaURL = []\<rparr> of
             (result, ctx, eng') \<Rightarrow>
               (result \<noteq> ResultDrop, mc_Metric ctx, (eng', mc_Resource ctx, mc_Scope ctx))))"

definition evaluateTraceStep ::
  "('eng \<Rightarrow> TraceContext \<Rightarrow> EvaluateResult \<times> TraceContext \<times> 'eng)
   \<Rightarrow> 'eng EvalState \<Rightarrow> Span \<Rightarrow> bool \<times> Span \<times> 'eng EvalState" where
  "evaluateTraceStep EvaluateTrace st spn =
     (case st of
        (eng, res, scope) \<Rightarrow>
          (case EvaluateTrace eng \<lparr>tc_Span = spn, tc_Resource = res, tc_Scope = scope,
                                   tc_ResourceSchemaURL = [], tc_ScopeSchemaURL = []\<rparr> of
             (result, ctx, eng') \<Rightarrow>
               (result \<noteq> ResultDrop, tc_Span ctx, (eng', tc_Resource ctx, tc_Scope ctx))))"

text \<open>
  The first pair of loops: for every resource container and every scope container in
  it, the records are evaluated in order and the kept ones stored back. The resource and
  the scope are shared by the records of a container through pointers, so what a
  transform did to them is seen by the records that follow.
\<close>

fun evaluateScopes ::
  "('eng EvalState \<Rightarrow> 'r \<Rightarrow> bool \<times> 'r \<times> 'eng EvalState) \<Rightarrow> 'eng \<Rightarrow> Resource option
   \<Rightarrow> 'r ScopeContainer list \<Rightarrow> 'r ScopeContainer list \<times> 'eng \<times> Resource option" where
  "evaluateScopes step eng res [] = ([], eng, res)"
| "evaluateScopes step eng res (sl # sls) =
     (case keepSlice step (eng, res, container_Scope sl) (container_Records sl) of
        (kept, eng', res', scope') \<Rightarrow>
          (case evaluateScopes step eng' res' sls of
             (sls', eng'', res'') \<Rightarrow>
               (sl\<lparr>container_Scope := scope', container_Records := kept\<rparr> # sls', eng'', res'')))"

fun evaluateResources ::
  "('eng EvalState \<Rightarrow> 'r \<Rightarrow> bool \<times> 'r \<times> 'eng EvalState) \<Rightarrow> 'eng
   \<Rightarrow> 'r ResourceContainer list \<Rightarrow> 'r ResourceContainer list \<times> 'eng" where
  "evaluateResources step eng [] = ([], eng)"
| "evaluateResources step eng (rl # rls) =
     (case evaluateScopes step eng (container_Resource rl) (container_Scopes rl) of
        (sls', eng', res') \<Rightarrow>
          (case evaluateResources step eng' rls of
             (rls', eng'') \<Rightarrow>
               (rl\<lparr>container_Resource := res', container_Scopes := sls'\<rparr> # rls', eng'')))"

text \<open>Prune empty scope containers, then empty resource containers.\<close>

definition pruneScopes :: "'r ResourceContainer list \<Rightarrow> 'r ResourceContainer list" where
  "pruneScopes data =
     map (\<lambda>rl. rl\<lparr>container_Scopes :=
                    fst (keepSlice (pureStep (\<lambda>sl. length (container_Records sl) > 0)) ()
                           (container_Scopes rl))\<rparr>) data"

definition pruneResources :: "'r ResourceContainer list \<Rightarrow> 'r ResourceContainer list" where
  "pruneResources data =
     fst (keepSlice (pureStep (\<lambda>rl. length (container_Scopes rl) > 0)) () data)"

definition processSignal ::
  "('eng EvalState \<Rightarrow> 'r \<Rightarrow> bool \<times> 'r \<times> 'eng EvalState) \<Rightarrow> 'eng
   \<Rightarrow> 'r ResourceContainer list \<Rightarrow> 'r ResourceContainer list \<times> 'eng" where
  "processSignal step eng data =
     (case evaluateResources step eng data of
        (data', eng') \<Rightarrow> (pruneResources (pruneScopes data'), eng'))"

definition processLogs ::
  "('eng \<Rightarrow> LogContext \<Rightarrow> EvaluateResult \<times> LogContext \<times> 'eng) \<Rightarrow> 'eng
   \<Rightarrow> ResourceLogs list \<Rightarrow> ResourceLogs list \<times> 'eng" where
  "processLogs EvaluateLog eng data = processSignal (evaluateLogStep EvaluateLog) eng data"

definition processMetrics ::
  "('eng \<Rightarrow> MetricContext \<Rightarrow> EvaluateResult \<times> MetricContext \<times> 'eng) \<Rightarrow> 'eng
   \<Rightarrow> ResourceMetrics list \<Rightarrow> ResourceMetrics list \<times> 'eng" where
  "processMetrics EvaluateMetric eng data =
     processSignal (evaluateMetricStep EvaluateMetric) eng data"

definition processTraces ::
  "('eng \<Rightarrow> TraceContext \<Rightarrow> EvaluateResult \<times> TraceContext \<times> 'eng) \<Rightarrow> 'eng
   \<Rightarrow> ResourceSpans list \<Rightarrow> ResourceSpans list \<times> 'eng" where
  "processTraces EvaluateTrace eng data =
     processSignal (evaluateTraceStep EvaluateTrace) eng data"

subsection \<open>Signal processing of the Zig runner\<close>

text \<open>
  \<^verbatim>\<open>processLogs\<close>, \<^verbatim>\<open>processMetrics\<close> and \<^verbatim>\<open>processTraces\<close> of the Zig runner walk
  a list with an index and call \<^verbatim>\<open>orderedRemove\<close> on the element to drop, leaving the
  index where it is. \<open>removeWhere_zig\<close> is this loop; its test \<open>drops\<close> threads a state.
  In the evaluation loops the test is \<^verbatim>\<open>engine.evaluate\<close> on the context built from
  the record, the resource and the scope, with no mutator: it is the parameter
  \<open>evaluate\<close>, which returns whether the decision is \<^verbatim>\<open>.drop\<close> and the new state of
  the engine. The pruning loops test for an empty list of records or of scope containers.
\<close>

function removeWhere_zig :: "('s \<Rightarrow> 'a \<Rightarrow> bool \<times> 's) \<Rightarrow> 's \<Rightarrow> 'a list \<Rightarrow> nat \<Rightarrow> 'a list \<times> 's" where
  "removeWhere_zig drops s items i =
     (if i < length items then
        (case drops s (items ! i) of
           (d, s') \<Rightarrow>
             if d then removeWhere_zig drops s' (orderedRemove items i) i
             else removeWhere_zig drops s' items (i + 1))
      else (items, s))"
  by pat_completeness auto
termination
  by (relation "measure (\<lambda>(drops, s, items, i). length items - i)")
     (auto simp: orderedRemove_def)

declare removeWhere_zig.simps [simp del]

fun evaluateScopes_zig ::
  "('eng \<Rightarrow> Resource option \<Rightarrow> InstrumentationScope option \<Rightarrow> 'r \<Rightarrow> bool \<times> 'eng) \<Rightarrow> 'eng
   \<Rightarrow> Resource option \<Rightarrow> 'r ScopeContainer list \<Rightarrow> 'r ScopeContainer list \<times> 'eng" where
  "evaluateScopes_zig evaluate eng res [] = ([], eng)"
| "evaluateScopes_zig evaluate eng res (sl # sls) =
     (case removeWhere_zig (\<lambda>e r. evaluate e res (container_Scope sl) r) eng
             (container_Records sl) 0 of
        (kept, eng') \<Rightarrow>
          (case evaluateScopes_zig evaluate eng' res sls of
             (sls', eng'') \<Rightarrow> (sl\<lparr>container_Records := kept\<rparr> # sls', eng'')))"

fun evaluateResources_zig ::
  "('eng \<Rightarrow> Resource option \<Rightarrow> InstrumentationScope option \<Rightarrow> 'r \<Rightarrow> bool \<times> 'eng) \<Rightarrow> 'eng
   \<Rightarrow> 'r ResourceContainer list \<Rightarrow> 'r ResourceContainer list \<times> 'eng" where
  "evaluateResources_zig evaluate eng [] = ([], eng)"
| "evaluateResources_zig evaluate eng (rl # rls) =
     (case evaluateScopes_zig evaluate eng (container_Resource rl) (container_Scopes rl) of
        (sls', eng') \<Rightarrow>
          (case evaluateResources_zig evaluate eng' rls of
             (rls', eng'') \<Rightarrow> (rl\<lparr>container_Scopes := sls'\<rparr> # rls', eng'')))"

definition pruneScopes_zig :: "'r ResourceContainer list \<Rightarrow> 'r ResourceContainer list" where
  "pruneScopes_zig data =
     map (\<lambda>rl. rl\<lparr>container_Scopes :=
                    fst (removeWhere_zig (\<lambda>u sl. (length (container_Records sl) = 0, u)) ()
                           (container_Scopes rl) 0)\<rparr>) data"

definition pruneResources_zig :: "'r ResourceContainer list \<Rightarrow> 'r ResourceContainer list" where
  "pruneResources_zig data =
     fst (removeWhere_zig (\<lambda>u rl. (length (container_Scopes rl) = 0, u)) () data 0)"

definition processSignal_zig ::
  "('eng \<Rightarrow> Resource option \<Rightarrow> InstrumentationScope option \<Rightarrow> 'r \<Rightarrow> bool \<times> 'eng) \<Rightarrow> 'eng
   \<Rightarrow> 'r ResourceContainer list \<Rightarrow> 'r ResourceContainer list \<times> 'eng" where
  "processSignal_zig evaluate eng data =
     (case evaluateResources_zig evaluate eng data of
        (data', eng') \<Rightarrow> (pruneResources_zig (pruneScopes_zig data'), eng'))"

subsection \<open>What a filtering loop is meant to compute\<close>

text \<open>
  \<open>keptSeq\<close> runs the loop body over the elements in order and collects the kept ones
  in a fresh list. \<open>pruned\<close> is a batch without its empty scope containers and without
  the resource containers this leaves empty.
\<close>

fun keptSeq :: "('s \<Rightarrow> 'a \<Rightarrow> bool \<times> 'a \<times> 's) \<Rightarrow> 's \<Rightarrow> 'a list \<Rightarrow> 'a list \<times> 's" where
  "keptSeq step s [] = ([], s)"
| "keptSeq step s (x # xs) =
     (case step s x of
        (keep, x', s') \<Rightarrow>
          (case keptSeq step s' xs of
             (ys, s'') \<Rightarrow> (if keep then x' # ys else ys, s'')))"

definition pruned :: "'r ResourceContainer list \<Rightarrow> 'r ResourceContainer list" where
  "pruned data =
     filter (\<lambda>rl. container_Scopes rl \<noteq> [])
       (map (\<lambda>rl. rl\<lparr>container_Scopes :=
                       filter (\<lambda>sl. container_Records sl \<noteq> []) (container_Scopes rl)\<rparr>) data)"

definition dropDebug :: "nat \<Rightarrow> LogContext \<Rightarrow> EvaluateResult \<times> LogContext \<times> nat" where
  "dropDebug eng ctx =
     (if SeverityText (Record ctx) = ''DEBUG'' then ResultDrop else ResultNoMatch, ctx, eng + 1)"

definition exampleBatch :: "ResourceLogs list" where
  "exampleBatch =
     [\<lparr>container_Resource = None,
       container_Scopes =
         [\<lparr>container_Scope = None,
           container_Records = [exampleLogRecord\<lparr>SeverityText := ''DEBUG''\<rparr>]\<rparr>]\<rparr>,
      \<lparr>container_Resource = None,
       container_Scopes =
         [\<lparr>container_Scope = None,
           container_Records = [exampleLogRecord\<lparr>SeverityText := ''DEBUG''\<rparr>,
                                exampleLogRecord]\<rparr>,
          \<lparr>container_Scope = None, container_Records = []\<rparr>]\<rparr>]"

subsection \<open>Binary64 arithmetic\<close>

text \<open>
  A finite \<^verbatim>\<open>float64\<close> is the rational number it denotes. An arithmetic operation
  yields the exact result rounded to the nearest binary64 number, ties to the one with an
  even significand: \<open>round64\<close>. The binary64 numbers around \<open>x\<close> are the multiples of
  \<open>quantum64 x\<close>, which is \<open>2\<close> to the power \<open>e - 52\<close> for the exponent
  \<open>e = \<lfloor>log\<^sub>2 \<bar>x\<bar>\<rfloor>\<close> of \<open>x\<close>, and \<open>2\<close> to the power \<open>-1074\<close> in the subnormal
  range. \<open>ilog2\<close> computes the exponent from the bit lengths of numerator and
  denominator. Overflow to infinity is not modelled: no value here exceeds \<open>2\<^sup>5\<^sup>6\<close>. NaN
  and the infinities are not values of the model.
\<close>

unbundle bit_operations_syntax

function bitLen :: "int \<Rightarrow> int" where
  "bitLen a = (if a \<le> 0 then 0 else 1 + bitLen (a div 2))"
  by pat_completeness auto
termination
  by (relation "measure nat") auto

declare bitLen.simps [simp del]

definition ilog2 :: "rat \<Rightarrow> int" where
  "ilog2 x =
     (case quotient_of x of
        (a, b) \<Rightarrow>
          let k = bitLen a - bitLen b
          in if 2 powi k \<le> x then k else k - 1)"

definition roundHalfEven :: "rat \<Rightarrow> int" where
  "roundHalfEven y =
     (let f = \<lfloor>y\<rfloor>; d = y - of_int f
      in if d < 1 / 2 then f else if d > 1 / 2 then f + 1 else if even f then f else f + 1)"

definition quantum64 :: "rat \<Rightarrow> rat" where
  "quantum64 x = 2 powi (max (ilog2 \<bar>x\<bar>) (- 1022) - 52)"

definition round64 :: "rat \<Rightarrow> rat" where
  "round64 x = (if x = 0 then 0 else quantum64 x * of_int (roundHalfEven (x / quantum64 x)))"

subsection \<open>The sampling decision of \<^verbatim>\<open>find_trace_ids.go\<close>\<close>

text \<open>
  \<^verbatim>\<open>otelShouldKeep\<close>: the loop over \<^verbatim>\<open>traceIDBytes[9:16]\<close> shifts the bytes into a
  \<^verbatim>\<open>uint64\<close> (\<open>shiftInBytes\<close>); the threshold is
  \<^verbatim>\<open>uint64((1.0 - percentage/100.0) * float64(maxThreshold))\<close>, three binary64
  operations (\<open>otelThreshold\<close>) and a conversion that truncates toward zero. The slice
  expression panics on a trace id shorter than 16 bytes.
\<close>

definition maxThreshold :: "64 word" where
  "maxThreshold = push_bit 56 1"

fun shiftInBytes :: "64 word \<Rightarrow> 8 word list \<Rightarrow> 64 word" where
  "shiftInBytes r [] = r"
| "shiftInBytes r (b # bs) = shiftInBytes (push_bit 8 r OR ucast b) bs"

definition float64_of_uint64 :: "64 word \<Rightarrow> rat" where
  "float64_of_uint64 w = round64 (of_int (uint w))"

definition uint64_of_float64 :: "rat \<Rightarrow> 64 word" where
  "uint64_of_float64 f = word_of_int \<lfloor>f\<rfloor>"

definition otelThreshold :: "rat \<Rightarrow> rat" where
  "otelThreshold percentage =
     round64 (round64 (1 - round64 (percentage / 100)) * float64_of_uint64 maxThreshold)"

definition otelShouldKeep :: "8 word list \<Rightarrow> rat \<Rightarrow> error + bool" where
  "otelShouldKeep traceIDBytes percentage =
     (if percentage \<ge> 100 then Inr True
      else if percentage \<le> 0 then Inr False
      else if length traceIDBytes < 16 then Inl SliceBoundsOutOfRange
      else let r = shiftInBytes 0 (take 7 (drop 9 traceIDBytes));
               threshold = uint64_of_float64 (otelThreshold percentage)
           in Inr (r \<ge> threshold))"

text \<open>The big-endian integer a byte sequence denotes.\<close>

definition bigEndian :: "8 word list \<Rightarrow> int" where
  "bigEndian bs = foldl (\<lambda>n b. 256 * n + uint b) 0 bs"

definition exampleTraceID :: "8 word list" where
  "exampleTraceID = [0xAA, 0xBB, 0xCC, 0xDD, 0, 0, 0, 0, 0, 0xE6, 0x66, 0x66, 0x66, 0x66, 0x66, 0x67]"

section \<open>Properties\<close>

lemma anyValueBytes_nonempty: "anyValueBytes v \<noteq> Some []"
  by (cases v rule: anyValueBytes.cases) auto

lemma findAttributePath_nonempty: "findAttributePath attrs path \<noteq> Some []"
  by (induction attrs path rule: findAttributePath.induct)
     (auto simp: anyValueBytes_nonempty split: option.splits AnyValue.splits)

lemma findAttributePath_lookupPath:
  "findAttributePath attrs path = anyValueBytes (lookupPath attrs path)"
  by (induction attrs path rule: findAttributePath.induct)
     (auto split: option.splits AnyValue.splits)

lemma anyValueBytes_Some_iff:
  "anyValueBytes v = Some s \<longleftrightarrow> v = Some (AnyValue_StringValue s) \<and> s \<noteq> []"
  by (cases v rule: anyValueBytes.cases) auto

lemma firstEventName_nonempty: "firstEventName evts \<noteq> Some []"
  by (induction evts) auto

lemma OTelLogMatcher_nonempty: "OTelLogMatcher ctx ref \<noteq> Some []"
  by (auto simp: OTelLogMatcher_def anyValueBytes_nonempty findAttributePath_nonempty
      split: FieldRef.splits LogField.splits)

lemma OTelMetricMatcher_nonempty:
  "ref \<noteq> FixedField MetricFieldType \<Longrightarrow> ref \<noteq> FixedField MetricFieldAggregationTemporality
   \<Longrightarrow> OTelMetricMatcher ctx ref \<noteq> Some []"
  by (auto simp: OTelMetricMatcher_def findAttributePath_nonempty
      split: FieldRef.splits MetricField.splits option.splits)

lemma OTelTraceMatcher_nonempty:
  "ref \<noteq> FixedField TraceFieldKind \<Longrightarrow> ref \<noteq> FixedField TraceFieldStatus
   \<Longrightarrow> OTelTraceMatcher ctx ref \<noteq> Some []"
  by (auto simp: OTelTraceMatcher_def findAttributePath_nonempty firstEventName_nonempty
      split: FieldRef.splits TraceField.splits option.splits)

subsection \<open>C1: the string read is absent or non-empty\<close>

text \<open>
  C1: for every field reference and every record the accessor's string read never
  returns an empty byte string. The trace accessor of the Go runner breaks this on an
  ordinary span whose kind is unspecified: the arm for the span kind returns
  \<^verbatim>\<open>[]byte(spanKindString(ctx.Span.Kind))\<close>, the slice of length zero that is not
  \<^verbatim>\<open>nil\<close>, where the other arms test for the empty value first, as the arm for the
  trace state does on the same span.
\<close>

theorem C1_enum_tag_read_is_empty:
  "OTelTraceMatcher exampleTraceContext (FixedField TraceFieldKind) = Some []
   \<and> OTelTraceMatcher exampleTraceContext (FixedField TraceFieldTraceState) = None"
  by (simp add: OTelTraceMatcher_def exampleTraceContext_def exampleSpan_def)

subsection \<open>Attribute lookup and the hit flag\<close>

lemma findAttributeIndexFrom_range:
  "findAttributeIndexFrom i attrs key = -1 \<or>
   (i \<le> findAttributeIndexFrom i attrs key \<and> findAttributeIndexFrom i attrs key < i + int (length attrs))"
  by (induction i attrs key rule: findAttributeIndexFrom.induct) auto

lemma findAttributeIndexFrom_neg_iff:
  "0 \<le> i \<Longrightarrow> findAttributeIndexFrom i attrs key < 0 \<longleftrightarrow> key \<notin> Key ` set attrs"
proof (induction i attrs key rule: findAttributeIndexFrom.induct)
  case (1 i key)
  then show ?case by simp
next
  case (2 i kv attrs key)
  then show ?case by auto
qed

lemma findAttributeIndex_neg_iff:
  "findAttributeIndex attrs key < 0 \<longleftrightarrow> key \<notin> Key ` set attrs"
  by (simp add: findAttributeIndex_def findAttributeIndexFrom_neg_iff)

lemma findAttributeIndex_nonneg_iff:
  "0 \<le> findAttributeIndex attrs key \<longleftrightarrow> key \<in> Key ` set attrs"
  using findAttributeIndex_neg_iff[of attrs key] by auto

lemma removeAttribute_hit:
  "snd (removeAttribute attrs key) \<longleftrightarrow>
     (case attrs of None \<Rightarrow> False | Some as \<Rightarrow> key \<noteq> [] \<and> key \<in> Key ` set as)"
  by (auto simp: removeAttribute_def Let_def findAttributeIndex_neg_iff split: option.splits)

lemma setAttribute_hit:
  "snd (setAttribute attrs key v u) \<longleftrightarrow> attrs \<noteq> None \<and> key \<noteq> []"
  by (auto simp: setAttribute_def Let_def split: option.splits)

lemma logTargetPresent_attr:
  "\<not> IsField ref \<Longrightarrow> logTargetPresent ctx ref =
     (case otelLogAttrs ctx ref of
        None \<Rightarrow> False
      | Some as \<Rightarrow> attrPath ref \<noteq> [] \<and> attrPath ref \<in> Key ` set as)"
  by (cases ref) (simp_all split: option.splits)

lemma logTargetWritable_attr:
  "\<not> IsField ref \<Longrightarrow> logTargetWritable ctx ref = (otelLogAttrs ctx ref \<noteq> None \<and> attrPath ref \<noteq> [])"
  by (cases ref) simp_all

lemma otelLogRemove_attr:
  "\<not> IsField ref \<Longrightarrow>
     fst (otelLogRemove ctx ref) = snd (removeAttribute (otelLogAttrs ctx ref) (attrPath ref))"
  by (cases ref) (simp_all add: otelLogRemove_def split_beta)

lemma otelLogAdd_attr:
  "\<not> IsField ref \<Longrightarrow>
     fst (otelLogAdd ctx ref v u) = snd (setAttribute (otelLogAttrs ctx ref) (attrPath ref) v u)"
  by (cases ref) (simp_all add: otelLogAdd_def split_beta)

lemma otelLogRemove_hit: "fst (otelLogRemove ctx ref) = logTargetPresent ctx ref"
proof (cases "IsField ref")
  case True
  then obtain f where "ref = FixedField f" by (cases ref) simp_all
  then show ?thesis by (cases f) (simp_all add: otelLogRemove_def)
next
  case False
  then show ?thesis
    by (simp add: otelLogRemove_attr logTargetPresent_attr removeAttribute_hit)
qed

lemma otelLogRedact_hit: "fst (otelLogRedact ctx ref v) = logTargetPresent ctx ref"
proof (cases ref)
  case (FixedField f)
  then show ?thesis by (cases f) (simp_all add: otelLogRedact_def)
qed (auto simp: otelLogRedact_def Let_def findAttributeIndex_neg_iff split: option.splits)

lemma otelLogAdd_hit: "fst (otelLogAdd ctx ref v u) = logTargetWritable ctx ref"
proof (cases "IsField ref")
  case True
  then obtain f where "ref = FixedField f" by (cases ref) simp_all
  then show ?thesis by (cases f) (simp_all add: otelLogAdd_def)
next
  case False
  then show ?thesis
    by (simp add: otelLogAdd_attr logTargetWritable_attr setAttribute_hit)
qed

lemma otelLogRename_hit:
  "(case otelLogRename ctx ref to u of
      Inr (hit, ctx') \<Rightarrow> hit = (\<not> IsField ref \<and> logTargetPresent ctx ref)
    | Inl e \<Rightarrow> \<not> IsField ref \<and> attrPath ref \<noteq> [] \<and> otelLogAttrs ctx ref = None)"
proof (cases ref)
  case (FixedField f)
  then show ?thesis by (simp add: otelLogRename_def)
qed (auto simp: otelLogRename_def Let_def split_beta findAttributeIndex_neg_iff
       findAttributeIndex_nonneg_iff split: option.splits)

lemma storeLogAttrs_head:
  "storeLogAttrs ctx (RecordAttr (k # ps)) = storeLogAttrs ctx (RecordAttr [k])"
  "storeLogAttrs ctx (ResourceAttr (k # ps)) = storeLogAttrs ctx (ResourceAttr [k])"
  "storeLogAttrs ctx (ScopeAttr (k # ps)) = storeLogAttrs ctx (ScopeAttr [k])"
proof -
  have "storeLogAttrs ctx (RecordAttr (k # ps)) a = storeLogAttrs ctx (RecordAttr [k]) a" for a
    by (cases a) simp_all
  then show "storeLogAttrs ctx (RecordAttr (k # ps)) = storeLogAttrs ctx (RecordAttr [k])"
    by (rule ext)
  have "storeLogAttrs ctx (ResourceAttr (k # ps)) a = storeLogAttrs ctx (ResourceAttr [k]) a" for a
    by (cases a) simp_all
  then show "storeLogAttrs ctx (ResourceAttr (k # ps)) = storeLogAttrs ctx (ResourceAttr [k])"
    by (rule ext)
  have "storeLogAttrs ctx (ScopeAttr (k # ps)) a = storeLogAttrs ctx (ScopeAttr [k]) a" for a
    by (cases a) simp_all
  then show "storeLogAttrs ctx (ScopeAttr (k # ps)) = storeLogAttrs ctx (ScopeAttr [k])"
    by (rule ext)
qed

lemma attrPath_head:
  "attrPath (RecordAttr (k # ps)) = k"
  "attrPath (ResourceAttr (k # ps)) = k"
  "attrPath (ScopeAttr (k # ps)) = k"
  by (simp_all add: attrPath_def)

lemma otelLogRename_head:
  "otelLogRename ctx (RecordAttr (k # ps)) to upsert = otelLogRename ctx (RecordAttr [k]) to upsert"
  "otelLogRename ctx (ResourceAttr (k # ps)) to upsert = otelLogRename ctx (ResourceAttr [k]) to upsert"
  "otelLogRename ctx (ScopeAttr (k # ps)) to upsert = otelLogRename ctx (ScopeAttr [k]) to upsert"
  unfolding otelLogRename_def attrPath_head storeLogAttrs_head[of ctx k ps]
    otelLogAttrs.simps IsField.simps
  by (rule refl)+

lemma findAttrIndex_None_iff: "findAttrIndex attrs key = None \<longleftrightarrow> key \<notin> Key ` set attrs"
  by (induction attrs) auto

lemma mutRename_blocked:
  "otelLogAttrs ctx ref = Some as \<Longrightarrow> attrPath ref \<in> Key ` set as \<Longrightarrow> to \<in> Key ` set as
   \<Longrightarrow> mutRename ok ctx ref to False = (AttrPath ref \<noteq> [], ctx)"
  by (cases ref; cases "AttrPath ref")
     (auto simp: mutRename_def attrKey_def attrPath_def Let_def findAttrIndex_None_iff
           split: option.splits list.splits)

lemma attrKey_head:
  "attrKey (RecordAttr (k # ps)) = Some k"
  "attrKey (ResourceAttr (k # ps)) = Some k"
  "attrKey (ScopeAttr (k # ps)) = Some k"
  by (simp_all add: attrKey_def)

lemma mutRename_head:
  "mutRename ok ctx (RecordAttr (k # ps)) to upsert = mutRename ok ctx (RecordAttr [k]) to upsert"
  "mutRename ok ctx (ResourceAttr (k # ps)) to upsert = mutRename ok ctx (ResourceAttr [k]) to upsert"
  "mutRename ok ctx (ScopeAttr (k # ps)) to upsert = mutRename ok ctx (ScopeAttr [k]) to upsert"
  unfolding mutRename_def attrKey_head storeLogAttrs_head[of ctx k ps] otelLogAttrs.simps
  by (rule refl)+


subsection \<open>C3: the hit flag of a mutation\<close>

text \<open>
  C3 as stated: the boolean result of every mutation (set/add, remove, rename) is true
  if and only if the targeted field existed before. Adding an attribute that is not
  there returns true: \<^verbatim>\<open>setAttribute\<close> appends the attribute and reports a hit.
\<close>

theorem C3_add_hits_absent_field:
  "fst (otelLogAdd exampleLogContext (RecordAttr [''new'']) ''v'' False)
   \<and> ''new'' \<notin> Key ` set (Attributes (Record exampleLogContext))
   \<and> OTelLogMatcher exampleLogContext (RecordAttr [''new'']) = None"
  by (simp add: otelLogAdd_def setAttribute_def findAttributeIndex_def attrPath_def
      OTelLogMatcher_def exampleLogContext_def exampleLogRecord_def)

text \<open>
  C3, amended: remove and redact return true if and only if the target was present
  (\<open>logTargetPresent\<close>); rename of a fixed field, or of an attribute whose container is
  there, returns true if and only if the reference is an attribute reference whose
  target was present; add returns true for every writable target
  (\<open>logTargetWritable\<close>), whether or not the field existed before.
\<close>

theorem C3_hit_flag:
  "fst (otelLogRemove ctx ref) = logTargetPresent ctx ref
   \<and> fst (otelLogRedact ctx ref v) = logTargetPresent ctx ref
   \<and> (IsField ref \<or> otelLogAttrs ctx ref \<noteq> None \<longrightarrow>
        map_sum id fst (otelLogRename ctx ref to u)
          = Inr (\<not> IsField ref \<and> logTargetPresent ctx ref))
   \<and> fst (otelLogAdd ctx ref v u) = logTargetWritable ctx ref"
proof -
  have "map_sum id fst (otelLogRename ctx ref to u)
          = Inr (\<not> IsField ref \<and> logTargetPresent ctx ref)"
    if "IsField ref \<or> otelLogAttrs ctx ref \<noteq> None"
  proof (cases "otelLogRename ctx ref to u")
    case (Inl e)
    with otelLogRename_hit[where ctx=ctx and ref=ref and to=to and u=u] that show ?thesis by simp
  next
    case (Inr r)
    with otelLogRename_hit[where ctx=ctx and ref=ref and to=to and u=u] show ?thesis by (cases r) simp
  qed
  then show ?thesis
    using otelLogRemove_hit otelLogRedact_hit otelLogAdd_hit by blast
qed

theorem C3_hit_flag_witness:
  "fst (otelLogRemove exampleLogContext (RecordAttr [''a'']))
   \<and> fst (otelLogRedact exampleLogContext (RecordAttr [''a'']) ''***'')
   \<and> map_sum id fst (otelLogRename exampleLogContext (RecordAttr [''a'']) ''b'' False) = Inr True
   \<and> fst (otelLogAdd exampleLogContext (RecordAttr [''a'']) ''***'' False)
   \<and> logTargetPresent exampleLogContext (RecordAttr [''a''])"
  using C3_hit_flag [of exampleLogContext "RecordAttr [''a'']" "''***''" "''b''" False]
  by (simp add: exampleLogContext_def exampleLogRecord_def attrPath_def)

subsection \<open>C4: a blocked rename changes nothing\<close>

text \<open>
  C4: when the referenced attribute container holds both the source key and the target
  key, a rename with upsert = false returns normally and leaves the whole context, and
  so every attribute entry and their order, unchanged. This holds for \<^verbatim>\<open>otelLogRename\<close>
  of the Go runner, called directly or through the transformer, and for \<^verbatim>\<open>mutRename\<close>
  of the Zig runner. The result is true unless the source key is the empty string (Go)
  or the path is empty (Zig).
\<close>

theorem C4_rename_no_upsert_blocked:
  "otelLogAttrs ctx ref = Some as \<Longrightarrow> attrPath ref \<in> Key ` set as \<Longrightarrow> to \<in> Key ` set as
   \<Longrightarrow> otelLogRename ctx ref to False = Inr (attrPath ref \<noteq> [], ctx)
     \<and> OTelLogTransformer ctx \<lparr>op_Kind = TransformRename, op_Ref = ref, op_Value = v,
          op_To = to, op_Upsert = False\<rparr> = Inr (attrPath ref \<noteq> [], ctx)
     \<and> mutRename appendOk ctx ref to False = (AttrPath ref \<noteq> [], ctx)"
  using mutRename_blocked [of ctx ref as to appendOk]
  by (cases ref) (auto simp: otelLogRename_def OTelLogTransformer_def Let_def
       findAttributeIndex_neg_iff findAttributeIndex_nonneg_iff)

theorem C4_rename_no_upsert_blocked_witness:
  "otelLogRename exampleLogContext (RecordAttr [''a'']) ''b'' False = Inr (True, exampleLogContext)
   \<and> mutRename True exampleLogContext (RecordAttr [''a'']) ''b'' False = (True, exampleLogContext)
   \<and> map Key (Attributes (Record exampleLogContext)) = [''a'', ''b'', ''e'']"
  using C4_rename_no_upsert_blocked
    [of exampleLogContext "RecordAttr [''a'']" "Attributes (Record exampleLogContext)" "''b''"
        "[]" True]
  by (simp add: exampleLogContext_def exampleLogRecord_def attrPath_def)

subsection \<open>C9: rename of a fixed field\<close>

text \<open>
  C9: a rename whose field reference is a fixed field returns false and leaves the
  context unchanged, in the Go runner (called directly or through the transformer) and
  in the Zig runner; and a rename of an attribute reference acts on the top-level key
  only, the first element of the path.
\<close>

theorem C9_rename_fixed_field_is_noop:
  "otelLogRename ctx (FixedField f) to upsert = Inr (False, ctx)
   \<and> OTelLogTransformer ctx \<lparr>op_Kind = TransformRename, op_Ref = FixedField f, op_Value = v,
        op_To = to, op_Upsert = upsert\<rparr> = Inr (False, ctx)
   \<and> mutRename appendOk ctx (FixedField f) to upsert = (False, ctx)
   \<and> otelLogRename ctx (RecordAttr (k # ps)) to upsert = otelLogRename ctx (RecordAttr [k]) to upsert
   \<and> otelLogRename ctx (ResourceAttr (k # ps)) to upsert = otelLogRename ctx (ResourceAttr [k]) to upsert
   \<and> otelLogRename ctx (ScopeAttr (k # ps)) to upsert = otelLogRename ctx (ScopeAttr [k]) to upsert
   \<and> mutRename appendOk ctx (RecordAttr (k # ps)) to upsert
       = mutRename appendOk ctx (RecordAttr [k]) to upsert
   \<and> mutRename appendOk ctx (ResourceAttr (k # ps)) to upsert
       = mutRename appendOk ctx (ResourceAttr [k]) to upsert
   \<and> mutRename appendOk ctx (ScopeAttr (k # ps)) to upsert
       = mutRename appendOk ctx (ScopeAttr [k]) to upsert"
  using otelLogRename_head [of ctx k ps to upsert] mutRename_head [of appendOk ctx k ps to upsert]
  by (simp add: otelLogRename_def OTelLogTransformer_def mutRename_def)

theorem C9_rename_fixed_field_witness:
  "otelLogRename exampleLogContext (FixedField LogFieldBody) ''b'' True
     = Inr (False, exampleLogContext)
   \<and> mutRename True exampleLogContext (FixedField LogFieldBody) ''b'' True
     = (False, exampleLogContext)"
  using C9_rename_fixed_field_is_noop [of exampleLogContext LogFieldBody "''b''" True]
  by simp

subsection \<open>C5: replacement of trace and span ids\<close>

lemma hexDecodeString_length:
  "hexDecodeString s = Some b \<Longrightarrow> length s = 2 * length b"
  by (induction s arbitrary: b rule: hexDecodeString.induct)
     (auto split: option.splits)

lemma traceIDFromString_eq:
  "traceIDFromString s =
     (case hexDecodeString s of
        Some b \<Rightarrow> if length s = 32 then b else emptyID 16
      | None \<Rightarrow> emptyID 16)"
  by (auto simp: traceIDFromString_def dest: hexDecodeString_length split: option.splits)

lemma spanIDFromString_eq:
  "spanIDFromString s =
     (case hexDecodeString s of
        Some b \<Rightarrow> if length s = 16 then b else emptyID 8
      | None \<Rightarrow> emptyID 8)"
  by (auto simp: spanIDFromString_def dest: hexDecodeString_length split: option.splits)

lemma length_traceIDFromString: "length (traceIDFromString s) = 16"
  by (simp add: traceIDFromString_def emptyID_def split: option.splits)

lemma length_spanIDFromString: "length (spanIDFromString s) = 8"
  by (simp add: spanIDFromString_def emptyID_def split: option.splits)

lemma otelLogRedact_ids:
  "snd (otelLogRedact ctx (FixedField LogFieldTraceID) v) = ctx\<lparr>Record := (Record ctx)\<lparr>TraceId := v\<rparr>\<rparr>"
  "snd (otelLogRedact ctx (FixedField LogFieldSpanID) v) = ctx\<lparr>Record := (Record ctx)\<lparr>SpanId := v\<rparr>\<rparr>"
  by (simp_all add: otelLogRedact_def)

lemma otelLogAdd_ids:
  "snd (otelLogAdd ctx (FixedField LogFieldTraceID) v u) =
     (if \<not> u \<and> TraceId (Record ctx) \<noteq> [] then ctx
      else ctx\<lparr>Record := (Record ctx)\<lparr>TraceId := v\<rparr>\<rparr>)"
  "snd (otelLogAdd ctx (FixedField LogFieldSpanID) v u) =
     (if \<not> u \<and> SpanId (Record ctx) \<noteq> [] then ctx
      else ctx\<lparr>Record := (Record ctx)\<lparr>SpanId := v\<rparr>\<rparr>)"
  by (simp_all add: otelLogAdd_def)

text \<open>
  C5 as stated: every redact or add of the trace id or span id stores the bytes of the
  replacement string verbatim, with no hex decoding and no length validation. The
  pdata-based runner redacts a trace id with the replacement \<open>REDACTED\<close> to the
  all-zero id, and turns 32 hexadecimal digits into the 16 bytes they denote.
\<close>

theorem C5_pdata_replacement_is_reparsed:
  "snd (otelLogRedact_pdata_TraceID ''0123456789abcdef'' ''REDACTED'') = emptyID 16
   \<and> map of_char (snd (otelLogRedact_pdata_TraceID ''0123456789abcdef''
                         ''000102030405060708090a0B0c0d0e0F''))
       = [0, 1, 2, 3, 4, 5, 6, 7, 8, 9, 10, 11, 12, 13, 14, 15 :: nat]"
  by (simp add: otelLogRedact_pdata_TraceID_def traceIDFromString_def)

text \<open>
  C5, amended: in the protobuf-based runner a redact of the trace id or span id stores
  the replacement bytes verbatim, and an add does so when upsert is set or the id is
  empty and otherwise leaves the context unchanged. In the pdata-based runner the id
  stored by a redact, and by an add that writes, always has 16 (span: 8) bytes: the
  bytes that the replacement denotes when it consists of 32 (span: 16) hexadecimal
  digits, and the all-zero id otherwise.
\<close>

theorem C5_id_replacement:
  "snd (otelLogRedact ctx (FixedField LogFieldTraceID) v) = ctx\<lparr>Record := (Record ctx)\<lparr>TraceId := v\<rparr>\<rparr>
   \<and> snd (otelLogRedact ctx (FixedField LogFieldSpanID) v) = ctx\<lparr>Record := (Record ctx)\<lparr>SpanId := v\<rparr>\<rparr>
   \<and> snd (otelLogAdd ctx (FixedField LogFieldTraceID) v u) =
       (if \<not> u \<and> TraceId (Record ctx) \<noteq> [] then ctx
        else ctx\<lparr>Record := (Record ctx)\<lparr>TraceId := v\<rparr>\<rparr>)
   \<and> snd (otelLogAdd ctx (FixedField LogFieldSpanID) v u) =
       (if \<not> u \<and> SpanId (Record ctx) \<noteq> [] then ctx
        else ctx\<lparr>Record := (Record ctx)\<lparr>SpanId := v\<rparr>\<rparr>)
   \<and> length (snd (otelLogRedact_pdata_TraceID tid v)) = 16
   \<and> snd (otelLogRedact_pdata_TraceID tid v) =
       (case hexDecodeString v of
          Some b \<Rightarrow> if length v = 32 then b else emptyID 16
        | None \<Rightarrow> emptyID 16)
   \<and> length (snd (otelLogRedact_pdata_SpanID sid v)) = 8
   \<and> snd (otelLogRedact_pdata_SpanID sid v) =
       (case hexDecodeString v of
          Some b \<Rightarrow> if length v = 16 then b else emptyID 8
        | None \<Rightarrow> emptyID 8)
   \<and> snd (otelLogAdd_pdata_TraceID tid v u) =
       (if \<not> u \<and> tid \<noteq> emptyID 16 then tid else snd (otelLogRedact_pdata_TraceID tid v))
   \<and> snd (otelLogAdd_pdata_SpanID sid v u) =
       (if \<not> u \<and> sid \<noteq> emptyID 8 then sid else snd (otelLogRedact_pdata_SpanID sid v))"
  using otelLogRedact_ids[of ctx v] otelLogAdd_ids[of ctx v u]
    traceIDFromString_eq[of v] spanIDFromString_eq[of v]
    length_traceIDFromString[of v] length_spanIDFromString[of v]
  by (simp add: otelLogRedact_pdata_TraceID_def otelLogRedact_pdata_SpanID_def
      otelLogAdd_pdata_TraceID_def otelLogAdd_pdata_SpanID_def)

theorem C5_id_replacement_witness:
  "TraceId (Record (snd (otelLogRedact exampleLogContext (FixedField LogFieldTraceID) ''REDACTED'')))
     = ''REDACTED''
   \<and> TraceId (Record (snd (otelLogAdd exampleLogContext (FixedField LogFieldTraceID) ''REDACTED'' False)))
     = ''REDACTED''
   \<and> snd (otelLogRedact_pdata_TraceID (emptyID 16) ''REDACTED'') = emptyID 16"
  using C5_id_replacement [of exampleLogContext "''REDACTED''" False "emptyID 16" "emptyID 8"]
  by (simp add: exampleLogContext_def exampleLogRecord_def)

subsection \<open>The tracestate merge of the Go runner\<close>

lemma mergeOT_parts_eq:
  "mergeOT_parts subKey acc parts =
     acc @ filter (\<lambda>p. subKeyOf p \<noteq> subKey) (filter (\<lambda>p. p \<noteq> []) (map TrimSpace parts))"
  by (induction parts arbitrary: acc) (simp_all add: Let_def)

lemma mergeOT_vendors_eq:
  "mergeOT_vendors subKey (ots, others) vendors =
     (ots @ filter (\<lambda>p. subKeyOf p \<noteq> subKey)
              (concat (map (\<lambda>e. filter (\<lambda>p. p \<noteq> []) (map TrimSpace (Split (drop 3 e) (CHR '';''))))
                 (filter (prefix ''ot='') (filter (\<lambda>e. e \<noteq> []) (map TrimSpace vendors))))),
      others @ filter (\<lambda>e. \<not> prefix ''ot='' e) (filter (\<lambda>e. e \<noteq> []) (map TrimSpace vendors)))"
  by (induction vendors arbitrary: ots others) (simp_all add: Let_def mergeOT_parts_eq)

lemma Join_Cons: "Join (x # xs) sep = x @ concat (map ((@) sep) xs)"
  by (induction xs arbitrary: x) simp_all

lemma subKeyOf_th [simp]: "subKeyOf (CHR ''t'' # CHR ''h'' # CHR '':'' # v) = ''th''"
  by (simp add: subKeyOf_def Index_def)

lemma Split_nonempty: "Split s c \<noteq> []"
  by (induction s) (auto split: list.splits)

lemma tracestateEntries_Nil: "tracestateEntries [] = []"
  by (simp add: tracestateEntries_def TrimSpace_def TrimLeft.simps TrimRight.simps
      leadingSpaceLen_def trailingSpaceLen_def)

text \<open>
  For every tracestate and every threshold value, the tracestate the Go runner writes
  back is the \<^verbatim>\<open>ot=\<close> vendor first, holding the original \<open>ot\<close> sub-keys other than
  \<open>th\<close> in their order followed by the new \<^verbatim>\<open>th:<value>\<close>, and then every other
  vendor entry, each after a comma, unchanged and in the original order.
\<close>

lemma mergeOTTracestate_go_eq:
  "OTelTraceTransformer_threshold ts v =
     ''ot='' @ Join (filter (\<lambda>p. subKeyOf p \<noteq> ''th'') (otSubKeys ts) @ [''th:'' @ v]) '';''
     @ concat (map ((@) '','') (otherVendorEntries ts))"
proof (cases "ts = []")
  case True
  then show ?thesis
    by (simp add: OTelTraceTransformer_threshold_def mergeOTTracestate_def otSubKeys_def otherVendorEntries_def
        tracestateEntries_Nil)
next
  case False
  show ?thesis
  proof (cases "otherVendorEntries ts")
    case Nil
    with False show ?thesis
      by (simp add: OTelTraceTransformer_threshold_def mergeOTTracestate_def mergeOT_vendors_eq otSubKeys_def
          otherVendorEntries_def tracestateEntries_def)
  next
    case (Cons e es)
    with False show ?thesis
      by (simp add: OTelTraceTransformer_threshold_def mergeOTTracestate_def mergeOT_vendors_eq otSubKeys_def
          otherVendorEntries_def tracestateEntries_def Join_Cons)
  qed
qed


lemma mergeOTTracestate_go_example:
  "''ot='' @ Join (filter (\<lambda>p. subKeyOf p \<noteq> ''th'')
                      (otSubKeys ''vendora=xyz,ot=rv:1234,vendorb=p'') @ [''th:'' @ ''8'']) '';''
     @ concat (map ((@) '','') (otherVendorEntries ''vendora=xyz,ot=rv:1234,vendorb=p''))
   = ''ot=rv:1234;th:8,vendora=xyz,vendorb=p''"
  unfolding mergeOTTracestate_go_eq [symmetric]
  by code_simp

subsection \<open>The tracestate merge of the Zig runner\<close>

text \<open>
  The Zig runner builds the same shape: \<^verbatim>\<open>ot=\<close> first, with the original \<open>ot\<close> parts
  that do not start with \<^verbatim>\<open>th:\<close> followed by the new \<^verbatim>\<open>th:<value>\<close>, then the other
  vendor entries in their order, where the entries and parts are the members with the
  surrounding spaces removed. It differs from the Go runner on a part \<^verbatim>\<open>th\<close> that
  has no colon, which it keeps and the Go runner drops, and on white space other than
  the space, which it does not strip.
\<close>

lemma Join_empty_iff: "[] \<notin> set xs \<Longrightarrow> Join xs sep = [] \<longleftrightarrow> xs = []"
  by (induction xs sep rule: Join.induct) auto

lemma Join_snoc: "Join (xs @ [x]) sep = (if xs = [] then x else Join xs sep @ sep @ x)"
  by (induction xs sep rule: Join.induct) auto

lemma mergeOT_parts_zig_eq:
  "[] \<notin> set acc \<Longrightarrow>
   mergeOT_parts_zig (Join acc '';'') parts =
     Join (acc @ filter (\<lambda>p. \<not> prefix ''th:'' p) (filter (\<lambda>p. p \<noteq> []) (map trim_zig parts))) '';''"
proof (induction parts arbitrary: acc)
  case Nil
  then show ?case by simp
next
  case (Cons part_raw parts)
  show ?case
  proof (cases "trim_zig part_raw = [] \<or> prefix ''th:'' (trim_zig part_raw)")
    case True
    then show ?thesis using Cons by (auto simp: Let_def)
  next
    case False
    then have ne: "[] \<notin> set (acc @ [trim_zig part_raw])" using Cons.prems by auto
    have "(if length (Join acc '';'') > 0 then Join acc '';'' @ '';'' else Join acc '';'')
            @ trim_zig part_raw = Join (acc @ [trim_zig part_raw]) '';''"
      using Join_empty_iff[OF Cons.prems, of "'';''"] by (simp add: Join_snoc)
    then show ?thesis
      using False Cons.IH[OF ne] by (simp add: Let_def)
  qed
qed

lemma mergeOT_vendors_zig_eq:
  "[] \<notin> set ots \<Longrightarrow> [] \<notin> set others \<Longrightarrow>
   mergeOT_vendors_zig (Join ots '';'', Join others '','') vendors =
     (Join (ots @ filter (\<lambda>p. \<not> prefix ''th:'' p)
              (concat (map (\<lambda>e. filter (\<lambda>p. p \<noteq> []) (map trim_zig (Split (drop 3 e) (CHR '';''))))
                 (filter (prefix ''ot='') (filter (\<lambda>e. e \<noteq> []) (map trim_zig vendors)))))) '';'',
      Join (others @ filter (\<lambda>e. \<not> prefix ''ot='' e) (filter (\<lambda>e. e \<noteq> []) (map trim_zig vendors))) '','')"
proof (induction vendors arbitrary: ots others)
  case Nil
  then show ?case by simp
next
  case (Cons vendor_raw vendors)
  let ?v = "trim_zig vendor_raw"
  consider (empty) "?v = []" | (ot) "?v \<noteq> []" "prefix ''ot='' ?v"
    | (other) "?v \<noteq> []" "\<not> prefix ''ot='' ?v" by blast
  then show ?case
  proof cases
    case empty
    then show ?thesis using Cons by (simp add: Let_def)
  next
    case ot
    let ?new = "filter (\<lambda>p. \<not> prefix ''th:'' p)
                  (filter (\<lambda>p. p \<noteq> []) (map trim_zig (Split (drop 3 ?v) (CHR '';''))))"
    have ne: "[] \<notin> set (ots @ ?new)" using Cons.prems by auto
    show ?thesis
      using ot Cons.IH[OF ne Cons.prems(2)] mergeOT_parts_zig_eq[OF Cons.prems(1)]
      by (simp add: Let_def)
  next
    case other
    have ne: "[] \<notin> set (others @ [?v])" using other Cons.prems by auto
    have "(if length (Join others '','') > 0 then Join others '','' @ '','' else Join others '','')
            @ ?v = Join (others @ [?v]) '',''"
      using Join_empty_iff[OF Cons.prems(2), of "'',''"] by (simp add: Join_snoc)
    then show ?thesis
      using other Cons.IH[OF Cons.prems(1) ne] by (simp add: Let_def)
  qed
qed

lemma trim_zig_Nil: "trim_zig [] = []"
  by (simp add: trim_zig_def)

lemma mergeOTTracestate_zig_eq:
  "mergeOTTracestate_zig ts v =
     ''ot='' @ Join (filter (\<lambda>p. \<not> prefix ''th:'' p) (otSubKeys_zig ts) @ [''th:'' @ v]) '';''
     @ concat (map ((@) '','') (otherVendorEntries_zig ts))"
proof -
  let ?ots = "filter (\<lambda>p. \<not> prefix ''th:'' p) (otSubKeys_zig ts)"
  let ?others = "otherVendorEntries_zig ts"
  have ne1: "[] \<notin> set ?ots"
    by (auto simp: otSubKeys_def otSubKeys_zig_def)
  have ne2: "[] \<notin> set ?others"
    by (auto simp: otherVendorEntries_zig_def tracestateEntries_zig_def)
  have loop: "(if length ts > 0 then mergeOT_vendors_zig ([], []) (Split ts (CHR '',''))
               else ([], [])) = (Join ?ots '';'', Join ?others '','')"
  proof (cases "ts = []")
    case True
    then show ?thesis
      by (simp add: otSubKeys_zig_def otherVendorEntries_zig_def tracestateEntries_zig_def
          trim_zig_Nil)
  next
    case False
    then show ?thesis
      using mergeOT_vendors_zig_eq[of "[]" "[]" "Split ts (CHR '','')"]
      by (simp add: otSubKeys_zig_def otherVendorEntries_zig_def tracestateEntries_zig_def)
  qed
  have a: "''ot='' @ (if length (Join ?ots '';'') > 0 then Join ?ots '';'' @ '';'' else [])
             @ ''th:'' @ v = ''ot='' @ Join (?ots @ [''th:'' @ v]) '';''"
    using Join_empty_iff[OF ne1, of "'';''"] by (simp add: Join_snoc)
  have b: "(if length (Join ?others '','') > 0 then r @ '','' @ Join ?others '','' else r)
             = r @ concat (map ((@) '','') ?others)" for r :: string
    using Join_empty_iff[OF ne2, of "'',''"] by (cases ?others) (simp_all add: Join_Cons)
  show ?thesis
    unfolding mergeOTTracestate_zig_def loop Let_def prod.case b
    using a by simp
qed

lemma mergeOTTracestate_zig_examples:
  "mergeOTTracestate_zig ''vendora=xyz, ot=rv:1234;th:4 ,vendorb=p'' ''8''
     = ''ot=rv:1234;th:8,vendora=xyz,vendorb=p''"
  "OTelTraceTransformer_threshold ''vendora=xyz, ot=rv:1234;th:4 ,vendorb=p'' ''8''
     = ''ot=rv:1234;th:8,vendora=xyz,vendorb=p''"
  "mergeOTTracestate_zig ''ot=th'' ''8'' = ''ot=th;th:8''"
  "OTelTraceTransformer_threshold ''ot=th'' ''8'' = ''ot=th:8''"
  by code_simp+

subsection \<open>C2: merging the threshold into the tracestate\<close>

text \<open>
  C2: for every tracestate the merged tracestate begins with the \<^verbatim>\<open>ot=\<close> vendor, whose
  sub-keys are the original ones without \<open>th\<close> followed by the new \<^verbatim>\<open>th:<value>\<close>, and
  the other vendors follow. The Zig runner breaks this when a tab follows the comma
  before the \<^verbatim>\<open>ot=\<close> entry, optional white space of the tracestate header: it strips
  spaces only, takes the entry for another vendor and writes it back with its old
  \<^verbatim>\<open>th:4\<close> after a second \<^verbatim>\<open>ot=\<close> entry of its own. The Go runner, on the same
  input, merges into the entry.
\<close>

theorem C2_zig_merge_keeps_old_threshold:
  "mergeOTTracestate_zig (''vendora=xyz,'' @ [CHR 0x09] @ ''ot=rv:1234;th:4'') ''8''
     = ''ot=th:8,vendora=xyz,'' @ [CHR 0x09] @ ''ot=rv:1234;th:4''
   \<and> OTelTraceTransformer_threshold (''vendora=xyz,'' @ [CHR 0x09] @ ''ot=rv:1234;th:4'') ''8''
     = ''ot=rv:1234;th:8,vendora=xyz''"
  by code_simp

subsection \<open>C8: the stats JSON\<close>

lemma collectPolicyHits_eq:
  "collectPolicyHits out stats =
     (if reported stats = [] then out
      else Some ((case out of None \<Rightarrow> [] | Some hs \<Rightarrow> hs) @ reported stats))"
  by (induction stats arbitrary: out)
     (auto simp: reported_def word_greater_zero_iff split: option.splits)

lemma statsOutput_eq:
  "statsOutput stats = \<lparr>Policies = Some (sort_key PolicyID (reported stats))\<rparr>"
  by (simp add: statsOutput_def collectPolicyHits_eq sortSlice_PolicyID_def Let_def)

lemma appendPolicyHits_eq:
  "appendPolicyHits out entries =
     (if entries = [] then out
      else Some ((case out of None \<Rightarrow> [] | Some hs \<Rightarrow> hs) @ reported_srv entries))"
  by (induction out entries rule: appendPolicyHits.induct) (auto simp: reported_srv_def)

lemma getStats_eq:
  "getStats entries = \<lparr>srv_Policies = Some (sort_key srv_PolicyID (reported_srv entries))\<rparr>"
  by (simp add: getStats_def appendPolicyHits_eq reported_srv_def)

lemma collectStats_zig_eq: "collectStats_zig stats ps = stats @ reported_zig ps"
  by (induction stats ps rule: collectStats_zig.induct) (simp_all add: reported_zig_def)

lemma writeEntries_zig_pos:
  "0 < i \<Longrightarrow> writeEntries_zig i sts = concat (map (\<lambda>st. '','' @ printPolicyStat st) sts)"
  by (induction sts arbitrary: i) simp_all

lemma writeEntries_zig_eq: "writeEntries_zig 0 sts = Join (map printPolicyStat sts) '',''"
  by (cases sts) (simp_all add: writeEntries_zig_pos Join_Cons comp_def)

lemma writeStats_zig_eq:
  \<open>writeStats_zig (Some ps) =
     Some (''{"policies":['' @ Join (map printPolicyStat (sort_key policy_id (reported_zig ps))) '',''
           @ '']}'')\<close>
  by (simp add: writeStats_zig_def collectStats_zig_eq writeEntries_zig_eq)

lemma decimalDigits_value:
  "foldl (\<lambda>a c. 10 * a + (of_char c - 48)) (0::nat) (decimalDigits n) = n"
proof (induction n rule: decimalDigits.induct)
  case (1 n)
  show ?case
  proof (cases "n < 10")
    case True
    then show ?thesis by (subst decimalDigits.simps) simp
  next
    case False
    have "(48 + n mod 10) mod 256 = 48 + n mod 10"
      by (rule mod_less) (use pos_mod_bound[of 10 n] in linarith)
    then show ?thesis
      using False 1 by (subst decimalDigits.simps) simp
  qed
qed

lemma reported_zig_pos: "st \<in> set (reported_zig ps) \<Longrightarrow> 0 < hits st"
  by (auto simp: reported_zig_def split: option.splits if_splits)

text \<open>
  C8: the stats JSON is \<^verbatim>\<open>{"policies":[...]}\<close> around the reported entries, separated
  by commas, in ascending byte-wise order of policy id, each reported entry exactly once
  and printed as \<^verbatim>\<open>{"policy_id":...,"hits":N}\<close> with the counters in decimal (the Go
  runner adds \<^verbatim>\<open>,"misses":M\<close> when \<open>M\<close> is not zero); it is exactly
  \<^verbatim>\<open>{"policies":[]}\<close> when there is no entry to report. This holds for \<^verbatim>\<open>writeStats\<close>
  of the Go runner and, whenever there is a snapshot, for \<^verbatim>\<open>writeStats\<close> of the Zig
  runner; \<^verbatim>\<open>getStats\<close> of the server returns its entries sorted in the same way, in a
  slice that is empty and not \<^verbatim>\<open>nil\<close> when the map is empty. The last conjunct says
  that \<open>decimalDigits\<close> writes the decimal numeral of its argument.
\<close>

theorem C8_stats_sorted:
  \<open>writeStats enc stats =
     ''{"policies":[''
     @ Join (map (\<lambda>h. ''{"policy_id":'' @ enc (PolicyID h)
                       @ '',"hits":'' @ decimalDigits (unat (Hits h))
                       @ (if Misses h = 0 then [] else '',"misses":'' @ decimalDigits (unat (Misses h)))
                       @ ''}'')
               (sort_key PolicyID (reported stats))) '',''
     @ '']}''
   \<and> sorted (map PolicyID (sort_key PolicyID (reported stats)))
   \<and> mset (sort_key PolicyID (reported stats)) = mset (reported stats)
   \<and> (reported stats = [] \<longrightarrow> writeStats enc stats = ''{"policies":[]}'')
   \<and> writeStats_zig (Some ps) =
       Some (''{"policies":[''
             @ Join (map (\<lambda>st. ''{"policy_id":"'' @ policy_id st
                                @ ''","hits":'' @ decimalDigits (nat (hits st)) @ ''}'')
                       (sort_key policy_id (reported_zig ps))) '',''
             @ '']}'')
   \<and> sorted (map policy_id (sort_key policy_id (reported_zig ps)))
   \<and> mset (sort_key policy_id (reported_zig ps)) = mset (reported_zig ps)
   \<and> (reported_zig ps = [] \<longrightarrow> writeStats_zig (Some ps) = Some ''{"policies":[]}'')
   \<and> getStats entries = \<lparr>srv_Policies = Some (sort_key srv_PolicyID (reported_srv entries))\<rparr>
   \<and> sorted (map srv_PolicyID (sort_key srv_PolicyID (reported_srv entries)))
   \<and> mset (sort_key srv_PolicyID (reported_srv entries)) = mset (reported_srv entries)
   \<and> getStats [] = \<lparr>srv_Policies = Some []\<rparr>
   \<and> foldl (\<lambda>a c. 10 * a + (of_char c - 48)) (0::nat) (decimalDigits n) = n\<close>
proof -
  have z: \<open>map printPolicyStat (sort_key policy_id (reported_zig ps))
           = map (\<lambda>st. ''{"policy_id":"'' @ policy_id st
                        @ ''","hits":'' @ decimalDigits (nat (hits st)) @ ''}'')
               (sort_key policy_id (reported_zig ps))\<close>
    by (rule map_cong[OF refl])
       (use reported_zig_pos[of _ ps] in \<open>fastforce simp: printPolicyStat_def formatInt_def\<close>)
  have go: \<open>writeStats enc stats =
     ''{"policies":[''
     @ Join (map (\<lambda>h. ''{"policy_id":'' @ enc (PolicyID h)
                       @ '',"hits":'' @ decimalDigits (unat (Hits h))
                       @ (if Misses h = 0 then [] else '',"misses":'' @ decimalDigits (unat (Misses h)))
                       @ ''}'')
               (sort_key PolicyID (reported stats))) '',''
     @ '']}''\<close>
    by (simp add: writeStats_def marshalStatsOutput_def statsOutput_eq marshalPolicyHit_def[abs_def])
  have zig: \<open>writeStats_zig (Some ps) =
       Some (''{"policies":[''
             @ Join (map (\<lambda>st. ''{"policy_id":"'' @ policy_id st
                                @ ''","hits":'' @ decimalDigits (nat (hits st)) @ ''}'')
                       (sort_key policy_id (reported_zig ps))) '',''
             @ '']}'')\<close>
    unfolding writeStats_zig_eq z by simp
  have go0: \<open>reported stats = [] \<longrightarrow> writeStats enc stats = ''{"policies":[]}''\<close>
    by (simp add: writeStats_def marshalStatsOutput_def statsOutput_eq)
  have zig0: \<open>reported_zig ps = [] \<longrightarrow> writeStats_zig (Some ps) = Some ''{"policies":[]}''\<close>
    by (simp add: writeStats_zig_eq)
  have srv: "getStats entries = \<lparr>srv_Policies = Some (sort_key srv_PolicyID (reported_srv entries))\<rparr>"
    "getStats [] = \<lparr>srv_Policies = Some []\<rparr>"
    by (simp_all add: getStats_eq reported_srv_def)
  have srt: "sorted (map PolicyID (sort_key PolicyID (reported stats)))"
    "mset (sort_key PolicyID (reported stats)) = mset (reported stats)"
    "sorted (map policy_id (sort_key policy_id (reported_zig ps)))"
    "mset (sort_key policy_id (reported_zig ps)) = mset (reported_zig ps)"
    "sorted (map srv_PolicyID (sort_key srv_PolicyID (reported_srv entries)))"
    "mset (sort_key srv_PolicyID (reported_srv entries)) = mset (reported_srv entries)"
    by simp_all
  show ?thesis
    by (intro conjI go zig go0 zig0 srv srt decimalDigits_value)
qed

theorem C8_stats_sorted_witness:
  \<open>writeStats (\<lambda>s. [CHR 0x22] @ s @ [CHR 0x22])
     [\<lparr>stats_PolicyID = ''keep-info'', MatchHits = 0, MatchMisses = 2\<rparr>,
      \<lparr>stats_PolicyID = ''unused'', MatchHits = 0, MatchMisses = 0\<rparr>,
      \<lparr>stats_PolicyID = ''drop-debug'', MatchHits = 12, MatchMisses = 0\<rparr>]
     = ''{"policies":[{"policy_id":"drop-debug","hits":12},{"policy_id":"keep-info","hits":0,"misses":2}]}''
   \<and> writeStats_zig (Some [(''keep-info'', Some 2), (''fresh'', None), (''drop-debug'', Some 12),
                            (''unused'', Some 0)])
     = Some ''{"policies":[{"policy_id":"drop-debug","hits":12},{"policy_id":"keep-info","hits":2}]}''
   \<and> writeStats (\<lambda>s. [CHR 0x22] @ s @ [CHR 0x22])
       [\<lparr>stats_PolicyID = ''unused'', MatchHits = 0, MatchMisses = 0\<rparr>] = ''{"policies":[]}''\<close>
proof -
  let ?enc = "\<lambda>s. [CHR 0x22] @ s @ [CHR 0x22]"
  let ?stats = "[\<lparr>stats_PolicyID = ''keep-info'', MatchHits = 0, MatchMisses = 2\<rparr>,
      \<lparr>stats_PolicyID = ''unused'', MatchHits = 0, MatchMisses = 0\<rparr>,
      \<lparr>stats_PolicyID = ''drop-debug'', MatchHits = 12, MatchMisses = 0\<rparr>]"
  let ?ps = "[(''keep-info'', Some (2::int)), (''fresh'', None), (''drop-debug'', Some 12),
              (''unused'', Some 0)]"
  let ?unused = "[\<lparr>stats_PolicyID = ''unused'', MatchHits = 0, MatchMisses = 0\<rparr>]"
  note inst = C8_stats_sorted [of ?enc ?stats ?ps "[]" 0]
  note inst0 = C8_stats_sorted [of ?enc ?unused "[]" "[]" 0]
  have r0: "reported ?unused = []" by (simp add: reported_def)
  have a: \<open>writeStats ?enc ?stats
     = ''{"policies":[{"policy_id":"drop-debug","hits":12},{"policy_id":"keep-info","hits":0,"misses":2}]}''\<close>
    unfolding inst[THEN conjunct1] by code_simp
  have b: \<open>writeStats_zig (Some ?ps)
     = Some ''{"policies":[{"policy_id":"drop-debug","hits":12},{"policy_id":"keep-info","hits":2}]}''\<close>
    unfolding inst[THEN conjunct2, THEN conjunct2, THEN conjunct2, THEN conjunct2, THEN conjunct1]
    by code_simp
  have c: \<open>writeStats ?enc ?unused = ''{"policies":[]}''\<close>
    using inst0[THEN conjunct2, THEN conjunct2, THEN conjunct2, THEN conjunct1] r0 by simp
  show ?thesis
    using a b c by simp
qed

lemma getStats_example:
  "getStats [(''keep-info'', 2), (''drop-debug'', 12)]
   = \<lparr>srv_Policies = Some [\<lparr>srv_PolicyID = ''drop-debug'', srv_Hits = 12\<rparr>,
                            \<lparr>srv_PolicyID = ''keep-info'', srv_Hits = 2\<rparr>]\<rparr>"
  by code_simp

subsection \<open>C10: no empty containers in the output\<close>

lemma keepInPlace_correct:
  "w \<le> i \<Longrightarrow> i \<le> length a \<Longrightarrow>
   (case keepInPlace step s a i w of
      (a', w', s') \<Rightarrow>
        take w' a' = take w a @ fst (keptSeq step s (drop i a))
        \<and> s' = snd (keptSeq step s (drop i a)))"
proof (induction step s a i w rule: keepInPlace.induct)
  case (1 step s a i w)
  show ?case
  proof (cases "i < length a")
    case False
    then have "keepInPlace step s a i w = (a, w, s)"
      by (subst keepInPlace.simps) simp
    with False "1.prems" show ?thesis by simp
  next
    case True
    obtain keep x s' where st: "step s (a ! i) = (keep, x, s')" by (cases "step s (a ! i)") auto
    have dr: "drop i a = a ! i # drop (Suc i) a" using True by (simp add: Cons_nth_drop_Suc)
    show ?thesis
    proof (cases keep)
      case True
      note k = this
      have ih: "(case keepInPlace step s' (a[w := x]) (i + 1) (w + 1) of
        (a', w', s'') \<Rightarrow>
          take w' a' = take (w + 1) (a[w := x]) @ fst (keptSeq step s' (drop (i + 1) (a[w := x])))
          \<and> s'' = snd (keptSeq step s' (drop (i + 1) (a[w := x]))))"
        using "1.IH"(1)[OF \<open>i < length a\<close> st[symmetric] refl k] "1.prems" \<open>i < length a\<close> by simp
      have t: "take (Suc w) (a[w := x]) = take w a @ [x]"
        using "1.prems" \<open>i < length a\<close> by (simp add: take_Suc_conv_app_nth)
      have d: "drop (Suc i) (a[w := x]) = drop (Suc i) a"
        using "1.prems" by simp
      have "keepInPlace step s a i w = keepInPlace step s' (a[w := x]) (i + 1) (w + 1)"
        using \<open>i < length a\<close> st k by (subst keepInPlace.simps) simp
      then show ?thesis
        using ih st k by (simp add: t d dr split: prod.splits)
    next
      case False
      note k = this
      have ih: "(case keepInPlace step s' a (i + 1) w of
        (a', w', s'') \<Rightarrow>
          take w' a' = take w a @ fst (keptSeq step s' (drop (i + 1) a))
          \<and> s'' = snd (keptSeq step s' (drop (i + 1) a)))"
        using "1.IH"(2)[OF \<open>i < length a\<close> st[symmetric] refl k] "1.prems" \<open>i < length a\<close> by simp
      have "keepInPlace step s a i w = keepInPlace step s' a (i + 1) w"
        using \<open>i < length a\<close> st k by (subst keepInPlace.simps) simp
      then show ?thesis
        using ih st k by (simp add: dr split: prod.splits)
    qed
  qed
qed

lemma keepSlice_eq: "keepSlice step s xs = keptSeq step s xs"
  using keepInPlace_correct[of 0 0 xs step s]
  by (auto simp: keepSlice_def split: prod.splits)

lemma keptSeq_pure: "keptSeq (pureStep P) () xs = (filter P xs, ())"
  by (induction xs) (simp_all add: pureStep_def)

lemma pruneScopes_eq:
  "pruneScopes data =
     map (\<lambda>rl. rl\<lparr>container_Scopes :=
                    filter (\<lambda>sl. container_Records sl \<noteq> []) (container_Scopes rl)\<rparr>) data"
  by (simp add: pruneScopes_def keepSlice_eq keptSeq_pure)

lemma pruneResources_eq:
  "pruneResources data = filter (\<lambda>rl. container_Scopes rl \<noteq> []) data"
  by (simp add: pruneResources_def keepSlice_eq keptSeq_pure)

lemma processSignal_eq:
  "fst (processSignal step eng data) = pruned (fst (evaluateResources step eng data))"
  by (simp add: processSignal_def pruned_def pruneScopes_eq pruneResources_eq split: prod.splits)

lemma pruned_nonempty:
  "\<forall>rl \<in> set (pruned data).
     container_Scopes rl \<noteq> [] \<and> (\<forall>sl \<in> set (container_Scopes rl). container_Records sl \<noteq> [])"
  by (auto simp: pruned_def)

lemma removeWhere_zig_correct:
  "i \<le> length items \<Longrightarrow>
   removeWhere_zig drops s items i =
     (take i items @ fst (keptSeq (\<lambda>s x. case drops s x of (d, s') \<Rightarrow> (\<not> d, x, s')) s (drop i items)),
      snd (keptSeq (\<lambda>s x. case drops s x of (d, s') \<Rightarrow> (\<not> d, x, s')) s (drop i items)))"
proof (induction drops s items i rule: removeWhere_zig.induct)
  case (1 drops s items i)
  let ?step = "\<lambda>s x. case drops s x of (d, s') \<Rightarrow> (\<not> d, x, s')"
  show ?case
  proof (cases "i < length items")
    case False
    with 1(3) show ?thesis
      by (subst removeWhere_zig.simps) simp
  next
    case True
    obtain d s' where ds: "drops s (items ! i) = (d, s')" by (cases "drops s (items ! i)")
    have dr: "drop i items = items ! i # drop (Suc i) items"
      using True by (simp add: Cons_nth_drop_Suc)
    obtain ys s'' where ks: "keptSeq ?step s' (drop (Suc i) items) = (ys, s'')"
      by (cases "keptSeq ?step s' (drop (Suc i) items)")
    show ?thesis
    proof (cases d)
      case True
      have le: "i \<le> length (orderedRemove items i)"
        using \<open>i < length items\<close> by (simp add: orderedRemove_def)
      have t: "take i (orderedRemove items i) = take i items"
        using \<open>i < length items\<close> by (simp add: orderedRemove_def)
      have d': "drop i (orderedRemove items i) = drop (Suc i) items"
        using \<open>i < length items\<close> by (simp add: orderedRemove_def)
      have "removeWhere_zig drops s items i = removeWhere_zig drops s' (orderedRemove items i) i"
        using \<open>i < length items\<close> ds True by (subst removeWhere_zig.simps) simp
      also have "\<dots> = (take i items @ ys, s'')"
        using 1(1)[OF \<open>i < length items\<close> ds[symmetric] True le] by (simp add: t d' ks)
      finally show ?thesis
        using ds True ks by (simp add: dr)
    next
      case False
      have le: "i + 1 \<le> length items" using \<open>i < length items\<close> by simp
      have "removeWhere_zig drops s items i = removeWhere_zig drops s' items (i + 1)"
        using \<open>i < length items\<close> ds False by (subst removeWhere_zig.simps) simp
      also have "\<dots> = (take (Suc i) items @ ys, s'')"
        using 1(2)[OF \<open>i < length items\<close> ds[symmetric] False le] ks by simp
      also have "\<dots> = (take i items @ items ! i # ys, s'')"
        using \<open>i < length items\<close> by (simp add: take_Suc_conv_app_nth)
      finally show ?thesis
        using ds False ks by (simp add: dr)
    qed
  qed
qed

lemma keptSeq_drops_pure:
  "keptSeq (\<lambda>s x. (P x, x, ())) () xs = (filter P xs, ())"
  by (induction xs) simp_all

lemma pruneScopes_zig_eq:
  "pruneScopes_zig data =
     map (\<lambda>rl. rl\<lparr>container_Scopes :=
                    filter (\<lambda>sl. container_Records sl \<noteq> []) (container_Scopes rl)\<rparr>) data"
  by (simp add: pruneScopes_zig_def removeWhere_zig_correct keptSeq_drops_pure)

lemma pruneResources_zig_eq:
  "pruneResources_zig data = filter (\<lambda>rl. container_Scopes rl \<noteq> []) data"
  by (simp add: pruneResources_zig_def removeWhere_zig_correct keptSeq_drops_pure)

lemma processSignal_zig_eq:
  "fst (processSignal_zig evaluate eng data) = pruned (fst (evaluateResources_zig evaluate eng data))"
  by (simp add: processSignal_zig_def pruned_def pruneScopes_zig_eq pruneResources_zig_eq
      split: prod.splits)

text \<open>
  C10: for each signal, every resource container of the output has at least one scope
  container and every scope container of the output has at least one record; the output
  is the evaluated batch without the scope containers left with no record and without
  the resource containers left with no scope container, so a container with a surviving
  record is retained, in its place. This holds for the three functions of the Go runner
  and for the loops of the Zig runner.
\<close>

theorem C10_no_empty_containers:
  "(\<forall>rl \<in> set (fst (processLogs EvaluateLog engL logs)).
      container_Scopes rl \<noteq> [] \<and> (\<forall>sl \<in> set (container_Scopes rl). container_Records sl \<noteq> []))
   \<and> fst (processLogs EvaluateLog engL logs)
       = pruned (fst (evaluateResources (evaluateLogStep EvaluateLog) engL logs))
   \<and> (\<forall>rm \<in> set (fst (processMetrics EvaluateMetric engM metrics)).
      container_Scopes rm \<noteq> [] \<and> (\<forall>sm \<in> set (container_Scopes rm). container_Records sm \<noteq> []))
   \<and> fst (processMetrics EvaluateMetric engM metrics)
       = pruned (fst (evaluateResources (evaluateMetricStep EvaluateMetric) engM metrics))
   \<and> (\<forall>rs \<in> set (fst (processTraces EvaluateTrace engT traces)).
      container_Scopes rs \<noteq> [] \<and> (\<forall>ss \<in> set (container_Scopes rs). container_Records ss \<noteq> []))
   \<and> fst (processTraces EvaluateTrace engT traces)
       = pruned (fst (evaluateResources (evaluateTraceStep EvaluateTrace) engT traces))
   \<and> (\<forall>rc \<in> set (fst (processSignal_zig evaluate eng data)).
      container_Scopes rc \<noteq> [] \<and> (\<forall>sc \<in> set (container_Scopes rc). container_Records sc \<noteq> []))
   \<and> fst (processSignal_zig evaluate eng data)
       = pruned (fst (evaluateResources_zig evaluate eng data))"
  unfolding processLogs_def processMetrics_def processTraces_def processSignal_eq
    processSignal_zig_eq
  by (intro conjI pruned_nonempty refl)

theorem C10_no_empty_containers_witness:
  "fst (processLogs dropDebug 0 exampleBatch)
     = [\<lparr>container_Resource = None,
         container_Scopes = [\<lparr>container_Scope = None, container_Records = [exampleLogRecord]\<rparr>]\<rparr>]"
proof -
  have "fst (processLogs dropDebug 0 exampleBatch)
          = pruned (fst (evaluateResources (evaluateLogStep dropDebug) 0 exampleBatch))"
    using C10_no_empty_containers [of dropDebug 0 exampleBatch
        "\<lambda>e c. (ResultKeep, c, e)" "0::nat" "[]" "\<lambda>e c. (ResultKeep, c, e)" "0::nat" "[]"
        "\<lambda>e res sc r. (False, e)" "0::nat" "[] :: ResourceLogs list"]
    by blast
  also have "\<dots> = [\<lparr>container_Resource = None,
         container_Scopes = [\<lparr>container_Scope = None, container_Records = [exampleLogRecord]\<rparr>]\<rparr>]"
    by code_simp
  finally show ?thesis .
qed

lemma processSignal_zig_example:
  "fst (processSignal_zig (\<lambda>e res sc r. (SeverityText r = ''DEBUG'', e + 1)) (0::nat) exampleBatch)
     = [\<lparr>container_Resource = None,
         container_Scopes = [\<lparr>container_Scope = None, container_Records = [exampleLogRecord]\<rparr>]\<rparr>]"
  by code_simp

subsection \<open>C6: the proportional sampling decision\<close>

lemma shiftIn_step:
  fixes r :: "64 word" and b :: "8 word"
  assumes "uint r < 2 ^ 56"
  shows "uint (push_bit 8 r OR ucast b) = 256 * uint r + uint b"
proof -
  have dj: "push_bit 8 r + (ucast b :: 64 word) = push_bit 8 r OR ucast b"
    by (rule disjunctive_add) (auto simp: bit_simps dest: bit_imp_le_length)
  have "uint r * uint (256 :: 64 word) < 2 ^ LENGTH(64)"
    using assms by simp
  then have "uint (r * 256) = uint r * uint (256 :: 64 word)"
    by (simp only: uint_mult_lem)
  then have m: "uint (push_bit 8 r) = 256 * uint r"
    by (simp add: push_bit_eq_mult)
  have u: "uint (ucast b :: 64 word) = uint b"
    by (rule uint_up_ucast) (simp add: is_up)
  have lt: "uint b < 256" using uint_lt2p[of b] by simp
  have "uint (push_bit 8 r) + uint (ucast b :: 64 word) < 2 ^ LENGTH(64)"
    using assms lt m u by simp
  then have "uint (push_bit 8 r + (ucast b :: 64 word)) = uint (push_bit 8 r) + uint (ucast b :: 64 word)"
    by (simp only: uint_add_lem)
  then show ?thesis using dj m u by simp
qed

lemma shiftInBytes_foldl:
  "uint r < 256 ^ k \<Longrightarrow> k + length bs \<le> 7 \<Longrightarrow>
     uint (shiftInBytes r bs) = foldl (\<lambda>n b. 256 * n + uint b) (uint r) bs"
proof (induction bs arbitrary: r k)
  case Nil
  then show ?case by simp
next
  case (Cons b bs)
  have k: "k \<le> 6" using Cons.prems by simp
  have "(256 :: int) ^ k \<le> 256 ^ 6" using k by (intro power_increasing) simp_all
  then have r56: "uint r < 2 ^ 56" using Cons.prems(1) by simp
  have st: "uint (push_bit 8 r OR ucast b) = 256 * uint r + uint b"
    by (rule shiftIn_step[OF r56])
  have lt: "uint b < 256" using uint_lt2p[of b] by simp
  have "256 * uint r + uint b < 256 * 256 ^ k"
    using Cons.prems(1) lt by linarith
  then have "uint (push_bit 8 r OR ucast b) < 256 ^ Suc k" using st by simp
  moreover have "Suc k + length bs \<le> 7" using Cons.prems by simp
  ultimately have "uint (shiftInBytes (push_bit 8 r OR ucast b) bs) =
      foldl (\<lambda>n b. 256 * n + uint b) (uint (push_bit 8 r OR ucast b)) bs"
    by (rule Cons.IH)
  then show ?case using st by simp
qed

lemma shiftInBytes_bigEndian:
  "length bs \<le> 7 \<Longrightarrow> uint (shiftInBytes 0 bs) = bigEndian bs"
  using shiftInBytes_foldl[of 0 0 bs] by (simp add: bigEndian_def)

lemma bitLen_bounds:
  "0 < a \<Longrightarrow> 1 \<le> bitLen a \<and> 2 ^ nat (bitLen a - 1) \<le> a \<and> a < 2 ^ nat (bitLen a)"
proof (induction a rule: bitLen.induct)
  case (1 a)
  show ?case
  proof (cases "a div 2 = 0")
    case True
    with "1.prems" have "a = 1" by presburger
    then show ?thesis by (simp add: bitLen.simps[of 1] bitLen.simps[of 0])
  next
    case False
    with "1.prems" have pos: "0 < a div 2" by presburger
    from "1.IH" "1.prems" pos
    have ih: "1 \<le> bitLen (a div 2)" "2 ^ nat (bitLen (a div 2) - 1) \<le> a div 2"
      "a div 2 < 2 ^ nat (bitLen (a div 2))" by simp_all
    have eq: "bitLen a = 1 + bitLen (a div 2)" using "1.prems" by (subst bitLen.simps) simp
    have n1: "nat (bitLen a - 1) = Suc (nat (bitLen (a div 2) - 1))" using eq ih(1) by simp
    have n2: "nat (bitLen a) = Suc (nat (bitLen (a div 2)))" using eq ih(1) by simp
    have "2 * (a div 2) \<le> a" by presburger
    moreover have "a < 2 * (a div 2 + 1)" by presburger
    ultimately show ?thesis using ih eq unfolding n1 n2 by auto
  qed
qed

lemma roundHalfEven_le: "y \<le> of_int N \<Longrightarrow> roundHalfEven y \<le> N"
proof -
  assume le: "y \<le> of_int N"
  then have f: "\<lfloor>y\<rfloor> \<le> N" by (simp add: floor_le_iff)
  show ?thesis
  proof (cases "y = of_int \<lfloor>y\<rfloor>")
    case True
    then show ?thesis using f by (simp add: roundHalfEven_def Let_def)
  next
    case False
    then have "of_int \<lfloor>y\<rfloor> < y" using of_int_floor_le[of y] by linarith
    with le have "(of_int \<lfloor>y\<rfloor> :: rat) < of_int N" by linarith
    then have "\<lfloor>y\<rfloor> < N" by simp
    then show ?thesis by (simp add: roundHalfEven_def Let_def)
  qed
qed

lemma roundHalfEven_nonneg: "0 \<le> y \<Longrightarrow> 0 \<le> roundHalfEven y"
  by (auto simp: roundHalfEven_def Let_def)

lemma quantum64_pos: "0 < quantum64 x"
  by (simp add: quantum64_def)

lemma round64_nonneg: "0 \<le> x \<Longrightarrow> 0 \<le> round64 x"
  using quantum64_pos[of x]
  by (auto simp: round64_def intro!: mult_nonneg_nonneg roundHalfEven_nonneg divide_nonneg_pos)

lemma ilog2_le:
  assumes "0 < x" "x \<le> 2 powi m"
  shows "ilog2 x \<le> m"
proof -
  obtain a b where q: "quotient_of x = (a, b)" by (cases "quotient_of x")
  have b: "0 < b" using q by (rule quotient_of_denom_pos)
  have x: "x = of_int a / of_int b" using q by (rule quotient_of_div)
  have a: "0 < a" using assms(1) b x by (simp add: zero_less_divide_iff)
  define k where "k = bitLen a - bitLen b"
  show ?thesis
  proof (cases "2 powi k \<le> x")
    case True
    then have "(2::rat) powi k \<le> 2 powi m" using assms(2) by linarith
    then have "k \<le> m"
      using power_int_strict_increasing[of m k "2::rat"] by (cases "k \<le> m") auto
    then show ?thesis using True q by (simp add: ilog2_def k_def Let_def)
  next
    case False
    have la: "1 \<le> bitLen a" "2 ^ nat (bitLen a - 1) \<le> a" using bitLen_bounds[OF a] by simp_all
    have lb: "1 \<le> bitLen b" "b < 2 ^ nat (bitLen b)" using bitLen_bounds[OF b] by simp_all
    have "(2::rat) powi (bitLen a - 1) \<le> of_int a"
    proof -
      have "(2::rat) powi (bitLen a - 1) = 2 ^ nat (bitLen a - 1)"
        using la(1) by (simp add: power_int_def)
      also have "\<dots> = of_int (2 ^ nat (bitLen a - 1))" by simp
      also have "\<dots> \<le> of_int a" using la(2) by (simp only: of_int_le_iff)
      finally show ?thesis .
    qed
    moreover have "of_int b < (2::rat) powi (bitLen b)"
    proof -
      have "(of_int b :: rat) < of_int (2 ^ nat (bitLen b))" using lb(2) by (simp only: of_int_less_iff)
      also have "\<dots> = 2 ^ nat (bitLen b)" by simp
      also have "\<dots> = 2 powi (bitLen b)" using lb(1) by (simp add: power_int_def)
      finally show ?thesis .
    qed
    ultimately have "(2::rat) powi (bitLen a - 1) * 1 < of_int a * (2 powi (bitLen b) / of_int b)"
      using a b by (intro mult_le_less_imp_less) (simp_all add: pos_less_divide_eq)
    then have "(2::rat) powi (bitLen a - 1) / 2 powi (bitLen b) < of_int a / of_int b"
      by (simp add: field_simps)
    moreover have "(2::rat) powi (k - 1) = 2 powi (bitLen a - 1) / 2 powi (bitLen b)"
    proof -
      have e: "k - 1 = (bitLen a - 1) - bitLen b" by (simp add: k_def)
      show ?thesis unfolding e by (rule power_int_diff) simp
    qed
    ultimately have "(2::rat) powi (k - 1) < x"
      unfolding x by simp
    then have "(2::rat) powi (k - 1) < 2 powi m" using assms(2) by linarith
    then have "k - 1 < m"
      using power_int_increasing[of m "k - 1" "2::rat"] by (cases "k - 1 < m") auto
    then show ?thesis using False q by (simp add: ilog2_def k_def Let_def)
  qed
qed

lemma round64_le_powi:
  assumes "0 \<le> x" "x \<le> 2 powi m" "- 1022 \<le> m"
  shows "round64 x \<le> 2 powi m"
proof (cases "x = 0")
  case True
  then show ?thesis by (simp add: round64_def)
next
  case False
  then have pos: "0 < x" using assms(1) by simp
  define j where "j = max (ilog2 \<bar>x\<bar>) (- 1022) - 52"
  have q: "quantum64 x = 2 powi j" by (simp add: quantum64_def j_def)
  have "ilog2 \<bar>x\<bar> \<le> m" using ilog2_le[of x m] pos assms(2) by simp
  then have jm: "j \<le> m" using assms(3) by (simp add: j_def)
  define N :: int where "N = 2 ^ nat (m - j)"
  have N: "(of_int N :: rat) = 2 powi (m - j)" using jm by (simp add: N_def power_int_def)
  have split: "(2::rat) powi m = 2 powi j * 2 powi (m - j)"
    by (simp flip: power_int_add)
  have "x / 2 powi j \<le> of_int N"
    using assms(2) unfolding N split by (simp add: field_simps)
  then have "roundHalfEven (x / 2 powi j) \<le> N" by (rule roundHalfEven_le)
  then have "(of_int (roundHalfEven (x / 2 powi j)) :: rat) \<le> of_int N" by (simp only: of_int_le_iff)
  then have "2 powi j * of_int (roundHalfEven (x / 2 powi j)) \<le> 2 powi j * (of_int N :: rat)"
    by (intro mult_left_mono) simp_all
  then show ?thesis using False by (simp add: round64_def q N split)
qed

lemma maxThreshold_float: "float64_of_uint64 maxThreshold = 2 ^ 56"
  by code_simp

lemma otelThreshold_bounds:
  assumes "0 < p" "p < 100"
  shows "0 \<le> otelThreshold p \<and> otelThreshold p \<le> 2 ^ 56"
proof -
  define d where "d = round64 (p / 100)"
  have d0: "0 \<le> d" unfolding d_def using assms by (intro round64_nonneg) simp
  have d1: "d \<le> 1" unfolding d_def using round64_le_powi[of "p / 100" 0] assms by simp
  define y where "y = round64 (1 - d)"
  have y0: "0 \<le> y" unfolding y_def using d1 by (intro round64_nonneg) simp
  have y1: "y \<le> 1" unfolding y_def using round64_le_powi[of "1 - d" 0] d0 d1 by simp
  have z0: "0 \<le> y * 2 ^ 56" using y0 by simp
  have z1: "y * 2 ^ 56 \<le> 2 powi 56" using y1 by simp
  have "0 \<le> round64 (y * 2 ^ 56)" using z0 by (rule round64_nonneg)
  moreover have "round64 (y * 2 ^ 56) \<le> 2 powi 56" using z0 z1 by (rule round64_le_powi) simp
  ultimately show ?thesis
    by (simp add: otelThreshold_def maxThreshold_float d_def y_def)
qed

lemma uint64_of_float64_uint:
  "0 \<le> f \<Longrightarrow> f \<le> 2 ^ 56 \<Longrightarrow> uint (uint64_of_float64 f) = \<lfloor>f\<rfloor>"
proof -
  assume f: "0 \<le> f" "f \<le> 2 ^ 56"
  have "0 \<le> \<lfloor>f\<rfloor>" using f(1) by simp
  moreover have "\<lfloor>f\<rfloor> \<le> 2 ^ 56" using f(2) by (simp add: floor_le_iff)
  ultimately show ?thesis
    by (simp add: uint64_of_float64_def uint_word_of_int_eq take_bit_int_eq_self)
qed

text \<open>
  C6 as stated: for \<open>0 < percentage < 100\<close> the span is kept if and only if
  \<open>R \<ge> T\<close> with \<open>T = (1 - percentage/100) \<sqdot> 2\<^sup>5\<^sup>6\<close>. At \<open>percentage = 10\<close> the exact
  \<open>T\<close> is \<open>64851834634135142.4\<close>, the trace id below has
  \<open>R = 64851834634135143 \<ge> T\<close>, and the span is dropped: the threshold computed in
  binary64 is \<open>64851834634135144\<close>.
\<close>

theorem C6_exact_threshold_fails:
  "otelShouldKeep exampleTraceID 10 = Inr False
   \<and> (1 - 10 / 100) * 2 ^ 56 \<le> (of_int (bigEndian (drop 9 exampleTraceID)) :: rat)"
  by code_simp

text \<open>
  C6, amended: at \<open>percentage \<ge> 100\<close> every span is kept and at \<open>percentage \<le> 0\<close>
  none; for \<open>0 < percentage < 100\<close> and a 16-byte trace id the span is kept if and
  only if \<open>R \<ge> T\<^sub>6\<^sub>4\<close>, where \<open>R\<close> is the big-endian integer of bytes 9 to 15 and
  \<open>T\<^sub>6\<^sub>4\<close> is \<open>(1.0 - percentage/100.0) \<sqdot> 2\<^sup>5\<^sup>6\<close> as evaluated in binary64 arithmetic,
  rounded after each operation, and then truncated to an integer.
\<close>

theorem C6_proportional_keep:
  "(100 \<le> p \<longrightarrow> otelShouldKeep tid p = Inr True)
   \<and> (p \<le> 0 \<longrightarrow> otelShouldKeep tid p = Inr False)
   \<and> (0 < p \<and> p < 100 \<and> length tid = 16 \<longrightarrow>
        otelShouldKeep tid p = Inr (\<lfloor>otelThreshold p\<rfloor> \<le> bigEndian (drop 9 tid)))"
proof (intro conjI impI)
  assume "100 \<le> p" then show "otelShouldKeep tid p = Inr True" by (simp add: otelShouldKeep_def)
next
  assume "p \<le> 0" then show "otelShouldKeep tid p = Inr False" by (simp add: otelShouldKeep_def)
next
  assume a: "0 < p \<and> p < 100 \<and> length tid = 16"
  then have b: "0 \<le> otelThreshold p" "otelThreshold p \<le> 2 ^ 56"
    using otelThreshold_bounds[of p] by simp_all
  have t: "uint (uint64_of_float64 (otelThreshold p)) = \<lfloor>otelThreshold p\<rfloor>"
    using b by (rule uint64_of_float64_uint)
  have r: "uint (shiftInBytes 0 (take 7 (drop 9 tid))) = bigEndian (drop 9 tid)"
    using a shiftInBytes_bigEndian[of "take 7 (drop 9 tid)"] by simp
  show "otelShouldKeep tid p = Inr (\<lfloor>otelThreshold p\<rfloor> \<le> bigEndian (drop 9 tid))"
    using a t r by (simp add: otelShouldKeep_def Let_def word_le_def)
qed

theorem C6_proportional_keep_witness:
  "otelShouldKeep exampleTraceID 50
     = Inr (\<lfloor>otelThreshold 50\<rfloor> \<le> bigEndian (drop 9 exampleTraceID))
   \<and> otelShouldKeep exampleTraceID 100 = Inr True
   \<and> otelShouldKeep exampleTraceID 0 = Inr False"
  using C6_proportional_keep [of 50 exampleTraceID] C6_proportional_keep [of 100 exampleTraceID]
    C6_proportional_keep [of 0 exampleTraceID]
  by (simp add: exampleTraceID_def)

lemma otelThreshold_examples:
  "otelThreshold 50 = 2 ^ 55 \<and> otelThreshold 10 = 64851834634135144
   \<and> bigEndian (drop 9 exampleTraceID) = 64851834634135143"
  by code_simp

end
